theory Spec2Isabelle
  imports Complex_Main "HOL-Library.Word"
begin

section \<open>Smart Monitor: number types\<close>

text \<open>
  The program is one Arduino sketch, \<^verbatim>\<open>src/main.cpp\<close>. Its state is two global structs
  (\<^verbatim>\<open>DataState data\<close>, \<^verbatim>\<open>UIState ui\<close>), the global \<^verbatim>\<open>appName\<close> and the function-local
  statics of \<^verbatim>\<open>loop\<close> and \<^verbatim>\<open>paintWaiting\<close>. The model passes that state explicitly.

  Number types.
  \<^item> \<^verbatim>\<open>unsigned long\<close> (every \<^verbatim>\<open>millis()\<close> timestamp) is a 32-bit word: subtraction and
    addition wrap as on the target.
  \<^item> \<^verbatim>\<open>float\<close> is the datatype \<open>float\<close> below: a finite value, one of the two
    infinities, or NaN, with the IEEE 754 rules for the special values and overflow to
    infinity. Finite results are kept exact: rounding to 24 bits and the sign of zero
    are not modelled.
  \<^item> \<^verbatim>\<open>long\<close> and \<^verbatim>\<open>int\<close> are \<open>int\<close>; the only range check the program relies on
    (whether a JSON integer fits a \<^verbatim>\<open>long\<close>) is written out.
  \<^item> \<^verbatim>\<open>uint8_t\<close> is an 8-bit word, with the integer promotion of C++ written out.
\<close>

type_synonym ulong = "32 word"
type_synonym uint8 = "8 word"

section \<open>Single-precision arithmetic\<close>

text \<open>
  The operations treat the special values as IEEE 754 does: a result of magnitude
  \<open>FLT_OVF\<close> or more is an infinity, infinity minus infinity, zero times infinity, zero over
  zero and infinity over infinity are NaN, and every comparison with NaN is false.
\<close>

datatype float = Fin real | PInf | NInf | NaN

text \<open>
  The least magnitude that rounds to infinity in single precision: halfway between the
  largest finite value \<open>2^128 - 2^104\<close> and \<open>2^128\<close>.
\<close>

definition FLT_OVF :: real where
  "FLT_OVF = 2 ^ 128 - 2 ^ 103"

definition ovf :: "real \<Rightarrow> float" where
  "ovf x = (if FLT_OVF \<le> x then PInf else if x \<le> - FLT_OVF then NInf else Fin x)"

fun fneg :: "float \<Rightarrow> float" where
  "fneg (Fin a) = Fin (- a)"
| "fneg PInf = NInf"
| "fneg NInf = PInf"
| "fneg NaN = NaN"

fun fadd :: "float \<Rightarrow> float \<Rightarrow> float" where
  "fadd (Fin a) (Fin b) = ovf (a + b)"
| "fadd (Fin a) PInf = PInf"
| "fadd (Fin a) NInf = NInf"
| "fadd PInf (Fin b) = PInf"
| "fadd NInf (Fin b) = NInf"
| "fadd PInf PInf = PInf"
| "fadd NInf NInf = NInf"
| "fadd PInf NInf = NaN"
| "fadd NInf PInf = NaN"
| "fadd NaN y = NaN"
| "fadd x NaN = NaN"

definition fsub :: "float \<Rightarrow> float \<Rightarrow> float" where
  "fsub x y = fadd x (fneg y)"

fun fmul :: "float \<Rightarrow> float \<Rightarrow> float" where
  "fmul (Fin a) (Fin b) = ovf (a * b)"
| "fmul (Fin a) PInf = (if a = 0 then NaN else if 0 < a then PInf else NInf)"
| "fmul (Fin a) NInf = (if a = 0 then NaN else if 0 < a then NInf else PInf)"
| "fmul PInf (Fin b) = (if b = 0 then NaN else if 0 < b then PInf else NInf)"
| "fmul NInf (Fin b) = (if b = 0 then NaN else if 0 < b then NInf else PInf)"
| "fmul PInf PInf = PInf"
| "fmul NInf NInf = PInf"
| "fmul PInf NInf = NInf"
| "fmul NInf PInf = NInf"
| "fmul NaN y = NaN"
| "fmul x NaN = NaN"

fun fdiv :: "float \<Rightarrow> float \<Rightarrow> float" where
  "fdiv (Fin a) (Fin b) =
     (if b = 0 then (if a = 0 then NaN else if 0 < a then PInf else NInf) else ovf (a / b))"
| "fdiv (Fin a) PInf = Fin 0"
| "fdiv (Fin a) NInf = Fin 0"
| "fdiv PInf (Fin b) = (if 0 \<le> b then PInf else NInf)"
| "fdiv NInf (Fin b) = (if 0 \<le> b then NInf else PInf)"
| "fdiv PInf PInf = NaN"
| "fdiv NInf NInf = NaN"
| "fdiv PInf NInf = NaN"
| "fdiv NInf PInf = NaN"
| "fdiv NaN y = NaN"
| "fdiv x NaN = NaN"

text \<open>Comparisons: every comparison with NaN is false.\<close>

fun flt :: "float \<Rightarrow> float \<Rightarrow> bool" where
  "flt (Fin a) (Fin b) = (a < b)"
| "flt (Fin a) PInf = True"
| "flt NInf (Fin b) = True"
| "flt NInf PInf = True"
| "flt x y = False"

fun fle :: "float \<Rightarrow> float \<Rightarrow> bool" where
  "fle (Fin a) (Fin b) = (a \<le> b)"
| "fle (Fin a) PInf = True"
| "fle NInf (Fin b) = True"
| "fle NInf PInf = True"
| "fle PInf PInf = True"
| "fle NInf NInf = True"
| "fle x y = False"

definition fgt :: "float \<Rightarrow> float \<Rightarrow> bool" where
  "fgt x y = flt y x"

definition fge :: "float \<Rightarrow> float \<Rightarrow> bool" where
  "fge x y = fle y x"

fun isnan :: "float \<Rightarrow> bool" where
  "isnan NaN = True"
| "isnan x = False"

text \<open>
  Arduino's \<^verbatim>\<open>max(a,b)\<close> is the macro \<^verbatim>\<open>((a)>(b)?(a):(b))\<close>. A \<^verbatim>\<open>long\<close> converts to a
  finite \<^verbatim>\<open>float\<close>.
\<close>

definition fmax :: "float \<Rightarrow> float \<Rightarrow> float" where
  "fmax a b = (if fgt a b then a else b)"

definition of_long :: "int \<Rightarrow> float" where
  "of_long n = Fin (real_of_int n)"

section \<open>Program state\<close>

definition SCREEN_WIDTH :: int where
  "SCREEN_WIDTH = 128"

record DataState =
  cpu :: float
  ram :: int
  ram_used :: int
  tempC :: float
  weatherDesc :: string
  host :: string
  epoch :: int
  uptime :: int
  diskFreeKB :: int
  net_rx :: float
  net_tx :: float

record UIState =
  hasData :: bool
  tgtCpu :: float
  tgtRamRatio :: float
  tgtNetRatio :: float
  curCpu :: float
  curRamRatio :: float
  curNetRatio :: float
  netMaxKBs :: float
  tickerText :: string
  tickerX :: int
  tickerW :: int
  gaugesBottomY :: int
  tamaBlink :: bool
  tamaBlinkUntil :: ulong
  tamaNextBlink :: ulong
  tamaMouthPhase :: uint8
  tamaMouthMs :: ulong
  tamaWink :: bool
  tamaWinkUntil :: ulong
  tamaSweat :: bool
  tamaSweatUntil :: ulong
  headBob :: int
  tamaSleeping :: bool
  lowLoadSince :: ulong
  sleepStep :: uint8
  sleepMs :: ulong

text \<open>
  The whole program state: the two structs, \<^verbatim>\<open>appName\<close>, the statics \<^verbatim>\<open>line\<close>,
  \<^verbatim>\<open>lastDataMs\<close>, \<^verbatim>\<open>lastAnim\<close>, \<^verbatim>\<open>nextWink\<close>, \<^verbatim>\<open>nextSweat\<close> of \<^verbatim>\<open>loop\<close>, the static
  \<^verbatim>\<open>lastPaint\<close> of \<^verbatim>\<open>paintWaiting\<close>, and what has been printed on \<^verbatim>\<open>Serial\<close> (the
  diagnostic channel), one entry per printed line.
\<close>

record World =
  dat :: DataState
  ui :: UIState
  appName :: string
  line :: string
  lastDataMs :: ulong
  lastAnim :: ulong
  nextWink :: ulong
  nextSweat :: ulong
  lastPaint :: ulong
  serialOut :: "string list"

definition data0 :: DataState where
  "data0 = \<lparr> cpu = Fin (- 1), ram = - 1, ram_used = - 1, tempC = NaN, weatherDesc = [],
     host = [], epoch = 0, uptime = - 1, diskFreeKB = - 1, net_rx = NaN, net_tx = NaN \<rparr>"

definition ui0 :: UIState where
  "ui0 = \<lparr> hasData = False, tgtCpu = Fin 0, tgtRamRatio = Fin 0, tgtNetRatio = Fin 0,
     curCpu = Fin 0, curRamRatio = Fin 0, curNetRatio = Fin 0, netMaxKBs = Fin 1,
     tickerText = [], tickerX = 128, tickerW = 1, gaugesBottomY = 0,
     tamaBlink = False, tamaBlinkUntil = 0, tamaNextBlink = 0,
     tamaMouthPhase = 0, tamaMouthMs = 0,
     tamaWink = False, tamaWinkUntil = 0, tamaSweat = False, tamaSweatUntil = 0,
     headBob = 0, tamaSleeping = False, lowLoadSince = 0, sleepStep = 0, sleepMs = 0 \<rparr>"

definition world0 :: World where
  "world0 = \<lparr> dat = data0, ui = ui0, appName = [], line = [], lastDataMs = 0,
     lastAnim = 0, nextWink = 0, nextSweat = 0, lastPaint = 0, serialOut = [] \<rparr>"

section \<open>The JSON library\<close>

text \<open>
  ArduinoJson is a dependency, not code of the sketch. A parsed document is a value of
  \<open>json\<close>; the parser and the serialiser behind \<^verbatim>\<open>as<String>()\<close> are parameters of the
  model (record \<open>JsonLib\<close>). The accessors the sketch uses are written out after the
  library's documented behaviour: \<^verbatim>\<open>doc[key]\<close> is null when the key is missing or the
  value is not an object, and \<^verbatim>\<open>variant | dflt\<close> is the variant's value when it has the
  type of \<^verbatim>\<open>dflt\<close> and \<^verbatim>\<open>dflt\<close> otherwise. A JSON number is a real; read as a \<^verbatim>\<open>float\<close>
  it overflows to infinity like any other result.
\<close>

datatype json =
    JNull
  | JBool bool
  | JInt int
  | JFloat real
  | JString string
  | JArray "json list"
  | JObject "(string \<times> json) list"

datatype DeserializationError = EmptyInput | IncompleteInput | InvalidInput | NoMemory | TooDeep

fun f_str :: "DeserializationError \<Rightarrow> string" where
  "f_str EmptyInput = ''EmptyInput''"
| "f_str IncompleteInput = ''IncompleteInput''"
| "f_str InvalidInput = ''InvalidInput''"
| "f_str NoMemory = ''NoMemory''"
| "f_str TooDeep = ''TooDeep''"

record JsonLib =
  deserializeJson :: "string \<Rightarrow> DeserializationError + json"
  serializeJson :: "json \<Rightarrow> string"

fun getMember :: "json \<Rightarrow> string \<Rightarrow> json" where
  "getMember (JObject kvs) k = (case map_of kvs k of Some v \<Rightarrow> v | None \<Rightarrow> JNull)"
| "getMember _ k = JNull"

fun containsKey :: "json \<Rightarrow> string \<Rightarrow> bool" where
  "containsKey (JObject kvs) k = (map_of kvs k \<noteq> None)"
| "containsKey _ k = False"

definition LONG_MIN :: int where "LONG_MIN = - (2 ^ 31)"
definition LONG_MAX :: int where "LONG_MAX = 2 ^ 31 - 1"

fun or_float :: "json \<Rightarrow> float \<Rightarrow> float" where
  "or_float (JInt n) d = ovf (real_of_int n)"
| "or_float (JFloat x) d = ovf x"
| "or_float _ d = d"

fun or_long :: "json \<Rightarrow> int \<Rightarrow> int" where
  "or_long (JInt n) d = (if LONG_MIN \<le> n \<and> n \<le> LONG_MAX then n else d)"
| "or_long _ d = d"

fun or_cstr :: "json \<Rightarrow> string \<Rightarrow> string" where
  "or_cstr (JString s) d = s"
| "or_cstr _ d = d"

definition as_String :: "JsonLib \<Rightarrow> json \<Rightarrow> string" where
  "as_String lib v = (case v of JString s \<Rightarrow> s | _ \<Rightarrow> serializeJson lib v)"

section \<open>Strings and number formatting\<close>

definition isspace :: "char \<Rightarrow> bool" where
  "isspace c = (c = CHR '' '' \<or> c = CHR 0x09 \<or> c = CHR 0x0A \<or> c = CHR 0x0B
     \<or> c = CHR 0x0C \<or> c = CHR 0x0D)"

definition trim :: "string \<Rightarrow> string" where
  "trim s = rev (dropWhile isspace (rev (dropWhile isspace s)))"

text \<open>
  C++ integer division truncates towards zero; a cast to \<^verbatim>\<open>int\<close> does too. The cast of
  NaN or an infinity is undefined behaviour in C++; the model gives it the value 0.
\<close>

definition c_div :: "int \<Rightarrow> int \<Rightarrow> int" where
  "c_div a b = (if (a < 0) = (b < 0) then \<bar>a\<bar> div \<bar>b\<bar> else - (\<bar>a\<bar> div \<bar>b\<bar>))"

definition c_mod :: "int \<Rightarrow> int \<Rightarrow> int" where
  "c_mod a b = a - b * c_div a b"

definition trunc :: "real \<Rightarrow> int" where
  "trunc x = (if 0 \<le> x then \<lfloor>x\<rfloor> else \<lceil>x\<rceil>)"

fun to_int :: "float \<Rightarrow> int" where
  "to_int (Fin x) = trunc x"
| "to_int x = 0"

definition digit_char :: "nat \<Rightarrow> char" where
  "digit_char d = ''0123456789'' ! d"

fun dec_nat :: "nat \<Rightarrow> string" where
  "dec_nat n = (if n < 10 then [digit_char n] else dec_nat (n div 10) @ [digit_char (n mod 10)])"

declare dec_nat.simps [simp del]

text \<open>\<^verbatim>\<open>String(int)\<close> and \<^verbatim>\<open>String += long\<close>: the decimal numeral, with a minus sign.\<close>

definition String_of_int :: "int \<Rightarrow> string" where
  "String_of_int i = (if i < 0 then CHR ''-'' # dec_nat (nat (- i)) else dec_nat (nat i))"

definition textWidth :: "string \<Rightarrow> int \<Rightarrow> int" where
  "textWidth s sz = int (length s) * 6 * sz"

definition fmtDisk :: "int \<Rightarrow> string" where
  "fmtDisk kb =
     (if kb < 0 then ''--''
      else let mb = c_div kb 1024 in
        if mb > 9999 then String_of_int (c_div mb 1024) @ ''GB''
        else String_of_int mb @ ''MB'')"

definition fmtUptime :: "int \<Rightarrow> string" where
  "fmtUptime seconds =
     (if seconds < 0 then ''--''
      else let m = c_div seconds 60; h = c_div m 60; d = c_div h 24;
               h' = c_mod h 24; m' = c_mod m 60;
               s = (if d > 0 then String_of_int d @ ''d '' else [])
           in s @ String_of_int h' @ ''h'' @ String_of_int m' @ ''m'')"

section \<open>Decoding one line: \<^verbatim>\<open>updateFromJsonLine\<close>\<close>

text \<open>Lines 142-156: every recognised key overwrites its field, or keeps the old value.\<close>

definition readValues :: "JsonLib \<Rightarrow> json \<Rightarrow> World \<Rightarrow> World" where
  "readValues lib doc w =
     (let d = dat w;
          d' = d \<lparr> cpu := or_float (getMember doc ''cpu'') (cpu d),
                   ram := or_long (getMember doc ''ram'') (ram d),
                   ram_used := or_long (getMember doc ''ram_used'') (ram_used d),
                   tempC := or_float (getMember (getMember doc ''weather'') ''temp'') (tempC d),
                   host := or_cstr (getMember doc ''host'') (host d),
                   epoch := or_long (getMember doc ''time'') (epoch d),
                   uptime := or_long (getMember doc ''uptime'') (uptime d),
                   diskFreeKB := or_long (getMember doc ''disk_free'') (diskFreeKB d),
                   net_rx := or_float (getMember (getMember doc ''net'') ''rx'') (net_rx d),
                   net_tx := or_float (getMember (getMember doc ''net'') ''tx'') (net_tx d) \<rparr>
      in w \<lparr> dat := d',
             appName := (if containsKey doc ''app''
                         then trim (as_String lib (getMember doc ''app''))
                         else appName w) \<rparr>)"

text \<open>Lines 161-166: the network target and its auto-scale.\<close>

definition netTarget :: "float \<Rightarrow> float \<Rightarrow> UIState \<Rightarrow> UIState" where
  "netTarget rx tx u =
     (let total = fmax (Fin 0) (fadd rx tx);
          m = (if fgt total (netMaxKBs u) then total else netMaxKBs u);
          r = (if fgt m (Fin 0) then fdiv total m else Fin 0);
          m' = fmul m (Fin 0.996)
      in u \<lparr> tgtNetRatio := r, netMaxKBs := (if flt m' (Fin 1) then Fin 1 else m') \<rparr>)"

text \<open>Lines 159-166.\<close>

definition updateTargets :: "DataState \<Rightarrow> UIState \<Rightarrow> UIState" where
  "updateTargets d u =
     (let u1 = (if fge (cpu d) (Fin 0) then u \<lparr> tgtCpu := cpu d \<rparr> else u);
          u2 = (if ram d > 0 \<and> ram_used d \<ge> 0
                then u1 \<lparr> tgtRamRatio := fdiv (of_long (ram_used d)) (of_long (ram d)) \<rparr>
                else u1)
      in if \<not> isnan (net_rx d) \<and> \<not> isnan (net_tx d)
         then netTarget (net_rx d) (net_tx d) u2
         else u2)"

text \<open>Lines 169-175: the ticker text before the trailing padding.\<close>

definition tickerBody :: "DataState \<Rightarrow> string" where
  "tickerBody d =
     (let t1 = (if \<not> isnan (tempC d) then '' '' @ String_of_int (to_int (tempC d)) @ ''C'' else []);
          t2 = (if fge (cpu d) (Fin 0)
                then t1 @ ''  CPU '' @ String_of_int (to_int (cpu d)) @ ''%'' else t1);
          t3 = (if ram d > 0 \<and> ram_used d \<ge> 0
                then t2 @ ''  RAM '' @ String_of_int (c_div (ram d - ram_used d) 1024) @ ''MB''
                else t2);
          t4 = (if diskFreeKB d \<ge> 0 then t3 @ ''  DISK '' @ fmtDisk (diskFreeKB d) else t3);
          t5 = (if uptime d \<ge> 0 then t4 @ ''  UPT '' @ fmtUptime (uptime d) else t4)
      in if length t5 = 0 then '' Smart Monitor'' else t5)"

text \<open>Lines 176-178.\<close>

definition updateTicker :: "DataState \<Rightarrow> UIState \<Rightarrow> UIState" where
  "updateTicker d u =
     (let txt = tickerBody d @ ''   '';
          tw = textWidth txt 1
      in u \<lparr> tickerText := txt,
             tickerW := (if tw < 1 then 1 else tw),
             tickerX := (if tickerX u > SCREEN_WIDTH then SCREEN_WIDTH else tickerX u) \<rparr>)"

text \<open>
  The function itself. The result is the returned flag and the state after the call; a
  parse error prints one line on \<^verbatim>\<open>Serial\<close> and returns before anything is assigned.
\<close>

definition updateFromJsonLine :: "JsonLib \<Rightarrow> string \<Rightarrow> World \<Rightarrow> bool \<times> World" where
  "updateFromJsonLine lib l w =
     (case deserializeJson lib l of
        Inl err \<Rightarrow> (False, w \<lparr> serialOut := serialOut w @ [''Erreur JSON: '' @ f_str err] \<rparr>)
      | Inr doc \<Rightarrow>
          (let w1 = readValues lib doc w;
               u1 = updateTargets (dat w1) (ui w1);
               u2 = updateTicker (dat w1) u1
           in (True, w1 \<lparr> ui := u2 \<lparr> hasData := True \<rparr> \<rparr>)))"

section \<open>The animation step of \<^verbatim>\<open>loop\<close>\<close>

text \<open>
  What one pass through lines 435-491 reads from outside the state: the two \<^verbatim>\<open>millis()\<close>
  readings (line 446, kept in \<^verbatim>\<open>now\<close>, and the fresh one of line 489) and the four values
  \<^verbatim>\<open>random\<close> would return (lines 458, 461, 473, 474).
\<close>

record TickEnv =
  now :: ulong
  nowWake :: ulong
  rndWink :: int
  rndWinkNext :: int
  rndSweat :: int
  rndSweatNext :: int

text \<open>
  Lines 435-440, one gauge: \<^verbatim>\<open>cur += (tgt - cur) * 0.15f; if (cur < lo) cur = lo;
  if (cur > hi) cur = hi;\<close>
\<close>

definition smoothClamp :: "float \<Rightarrow> float \<Rightarrow> float \<Rightarrow> float \<Rightarrow> float" where
  "smoothClamp lo hi tgt cur =
     (let c = fadd cur (fmul (fsub tgt cur) (Fin 0.15));
          c1 = (if flt c lo then lo else c)
      in if fgt c1 hi then hi else c1)"

definition smoothStep :: "UIState \<Rightarrow> UIState" where
  "smoothStep u =
     u \<lparr> curCpu := smoothClamp (Fin 0) (Fin 100) (tgtCpu u) (curCpu u),
         curRamRatio := smoothClamp (Fin 0) (Fin 1) (tgtRamRatio u) (curRamRatio u),
         curNetRatio := smoothClamp (Fin 0) (Fin 1) (tgtNetRatio u) (curNetRatio u) \<rparr>"

text \<open>Line 443.\<close>

definition tickerStep :: "UIState \<Rightarrow> UIState" where
  "tickerStep u =
     (let x = tickerX u - 1
      in u \<lparr> tickerX := (if x + tickerW u < 0 then SCREEN_WIDTH else x) \<rparr>)"

text \<open>
  Lines 447-453: blink and mouth phase. \<^verbatim>\<open>(tamaMouthPhase + 1) & 3\<close> is computed on the
  promoted \<^verbatim>\<open>int\<close>, where \<^verbatim>\<open>& 3\<close> is the remainder by 4.
\<close>

definition blinkStep :: "ulong \<Rightarrow> UIState \<Rightarrow> UIState" where
  "blinkStep n u =
     (let u1 = (if n > tamaNextBlink u
                then u \<lparr> tamaBlink := True, tamaBlinkUntil := n + 120,
                         tamaNextBlink := n + 2000 + (n mod 3000) \<rparr>
                else u);
          u2 = (if tamaBlink u1 \<and> n > tamaBlinkUntil u1 then u1 \<lparr> tamaBlink := False \<rparr> else u1)
      in if n - tamaMouthMs u2 > 300
         then u2 \<lparr> tamaMouthMs := n,
                  tamaMouthPhase := word_of_nat ((unat (tamaMouthPhase u2) + 1) mod 4) \<rparr>
         else u2)"

text \<open>Lines 456-463: the occasional wink; \<^verbatim>\<open>nextWink\<close> is a static of \<^verbatim>\<open>loop\<close>.\<close>

definition winkStep :: "TickEnv \<Rightarrow> World \<Rightarrow> World" where
  "winkStep e w =
     (let n = now e;
          w1 = (if n > nextWink w
                then w \<lparr> ui := (if rndWink e < 10 \<and> \<not> tamaBlink (ui w)
                                 then (ui w) \<lparr> tamaWink := True, tamaWinkUntil := n + 120 \<rparr>
                                 else ui w),
                         nextWink := n + 1500 + word_of_int (rndWinkNext e) \<rparr>
                else w)
      in if tamaWink (ui w1) \<and> n > tamaWinkUntil (ui w1)
         then w1 \<lparr> ui := (ui w1) \<lparr> tamaWink := False \<rparr> \<rparr>
         else w1)"

text \<open>
  Lines 469 and 482 compute the same value twice: the mean of the smoothed CPU fraction
  and the smoothed RAM ratio.
\<close>

definition curLoad :: "UIState \<Rightarrow> float" where
  "curLoad u = fmul (fadd (fadd (Fin 0) (fdiv (curCpu u) (Fin 100))) (curRamRatio u)) (Fin 0.5)"

text \<open>Lines 468-476: the sweat drop; \<^verbatim>\<open>nextSweat\<close> is a static of \<^verbatim>\<open>loop\<close>.\<close>

definition sweatStep :: "TickEnv \<Rightarrow> World \<Rightarrow> World" where
  "sweatStep e w =
     (let n = now e;
          loadNow = curLoad (ui w);
          w1 = (if n > nextSweat w
                then (let prob = to_int (fmul (fmax (Fin 0) (fsub loadNow (Fin 0.7))) (Fin 100)) + 5
                      in w \<lparr> ui := (if rndSweat e < prob
                                      then (ui w) \<lparr> tamaSweat := True, tamaSweatUntil := n + 500 \<rparr>
                                      else ui w),
                              nextSweat := n + 2000 + word_of_int (rndSweatNext e) \<rparr>)
                else w)
      in if tamaSweat (ui w1) \<and> n > tamaSweatUntil (ui w1)
         then w1 \<lparr> ui := (ui w1) \<lparr> tamaSweat := False \<rparr> \<rparr>
         else w1)"

text \<open>Line 479, computed in \<^verbatim>\<open>double\<close>; the sine is finite.\<close>

definition headBobStep :: "ulong \<Rightarrow> UIState \<Rightarrow> UIState" where
  "headBobStep n u = u \<lparr> headBob := trunc (sin (real (unat n) / 400) * 1.5) \<rparr>"

text \<open>
  Lines 482-491: the sleep state machine. \<open>n\<close> is \<^verbatim>\<open>now\<close>, \<open>m\<close> the \<^verbatim>\<open>millis()\<close> of line 489
  and \<open>lastData\<close> the static \<^verbatim>\<open>lastDataMs\<close>.
\<close>

definition sleepMachine :: "ulong \<Rightarrow> ulong \<Rightarrow> ulong \<Rightarrow> UIState \<Rightarrow> UIState" where
  "sleepMachine n m lastData u =
     (if flt (curLoad u) (Fin 0.22)
      then (let u1 = (if lowLoadSince u = 0 then u \<lparr> lowLoadSince := n \<rparr> else u)
            in if \<not> tamaSleeping u1 \<and> n - lowLoadSince u1 > 9000
               then u1 \<lparr> tamaSleeping := True \<rparr>
               else u1)
      else (let u1 = u \<lparr> lowLoadSince := 0 \<rparr>;
                u2 = (if m - lastData \<le> 4000 then u1 \<lparr> tamaSleeping := False \<rparr> else u1)
            in u2 \<lparr> sleepStep := 0 \<rparr>))"

text \<open>Lines 435-491 in order.\<close>

definition animate :: "TickEnv \<Rightarrow> World \<Rightarrow> World" where
  "animate e w =
     (let w1 = w \<lparr> ui := blinkStep (now e) (tickerStep (smoothStep (ui w))) \<rparr>;
          w2 = sweatStep e (winkStep e w1)
      in w2 \<lparr> ui := sleepMachine (now e) (nowWake e) (lastDataMs w2) (headBobStep (now e) (ui w2)) \<rparr>)"

section \<open>Rendering\<close>

text \<open>
  Drawing goes to the display and is not part of the state. Two things are kept: the
  state the drawing functions write (\<^verbatim>\<open>gaugesBottomY\<close> in \<^verbatim>\<open>drawGauges\<close>, the sleep
  sub-animation in \<^verbatim>\<open>drawInfoLines\<close>), and which brows and which mouth
  \<^verbatim>\<open>drawInfoLines\<close> draws.
\<close>

datatype Brows = BrowsNone | BrowsHappy | BrowsSad

datatype Mouth = MouthFlat | MouthSmile | MouthFrown

text \<open>Lines 270-273: the load the face is drawn from.\<close>

definition moodLoad :: "DataState \<Rightarrow> float" where
  "moodLoad d =
     (let l0 = Fin 0;
          l1 = (if fge (cpu d) (Fin 0) then fadd l0 (fdiv (cpu d) (Fin 100)) else l0);
          l2 = (if ram d > 0 \<and> ram_used d \<ge> 0
                then fadd l1 (fdiv (of_long (ram_used d)) (of_long (ram d))) else l1)
      in fmul l2 (Fin 0.5))"

text \<open>
  Lines 293-314: asleep, the chain draws the flat mouth and no brows; awake, arcs above the
  eyes under 0.42 and slanted strokes above 0.68.
\<close>

definition faceBrows :: "UIState \<Rightarrow> DataState \<Rightarrow> Brows" where
  "faceBrows u d =
     (if tamaSleeping u then BrowsNone
      else if flt (moodLoad d) (Fin 0.42) then BrowsHappy
      else if fgt (moodLoad d) (Fin 0.68) then BrowsSad
      else BrowsNone)"

text \<open>Line 295 (asleep) and lines 331-344 (awake).\<close>

definition faceMouth :: "UIState \<Rightarrow> DataState \<Rightarrow> Mouth" where
  "faceMouth u d =
     (if tamaSleeping u then MouthFlat
      else if flt (moodLoad d) (Fin 0.42) then MouthSmile
      else if flt (moodLoad d) (Fin 0.68) then MouthFlat
      else MouthFrown)"

text \<open>Line 243: the five increments of \<^verbatim>\<open>y\<close> from \<^verbatim>\<open>headerH + 2\<close>.\<close>

definition drawGauges :: "UIState \<Rightarrow> UIState" where
  "drawGauges u = u \<lparr> gaugesBottomY := 10 + 2 + 8 + (7 + 3) + 8 + 7 \<rparr>"

text \<open>
  Line 319, with its two \<^verbatim>\<open>millis()\<close> readings; \<^verbatim>\<open>(sleepStep + 1) % 3\<close> is computed on
  the promoted \<^verbatim>\<open>int\<close>.
\<close>

definition drawInfoLines :: "ulong \<Rightarrow> ulong \<Rightarrow> UIState \<Rightarrow> UIState" where
  "drawInfoLines t1 t2 u =
     (if tamaSleeping u \<and> t1 - sleepMs u > 600
      then u \<lparr> sleepMs := t2, sleepStep := word_of_nat ((unat (sleepStep u) + 1) mod 3) \<rparr>
      else u)"

section \<open>The main loop\<close>

text \<open>
  One call of \<^verbatim>\<open>loop\<close> reads the bytes waiting on the serial port and the clock. Each byte
  comes with the \<^verbatim>\<open>millis()\<close> value line 411 would read at that byte; the other fields
  are the readings of lines 365-366, 426, 432, 433 and 319, and the readings of the
  animation step.
\<close>

record LoopEnv =
  serialIn :: "(char \<times> ulong) list"
  tWait1 :: ulong
  tWait2 :: ulong
  tStale :: ulong
  tGate :: ulong
  tAnim :: ulong
  tick :: TickEnv
  tZ1 :: ulong
  tZ2 :: ulong

text \<open>Lines 407-417: one byte.\<close>

definition serialByte :: "JsonLib \<Rightarrow> World \<Rightarrow> char \<times> ulong \<Rightarrow> World" where
  "serialByte lib w ct =
     (let c = fst ct; t = snd ct
      in if c = CHR 0x0A \<or> c = CHR 0x0D
         then (let l = trim (line w);
                   w1 = w \<lparr> line := l \<rparr>;
                   w2 = (if length l > 0
                         then (case updateFromJsonLine lib l w1 of
                                 (ok, w') \<Rightarrow> if ok then w' \<lparr> lastDataMs := t \<rparr> else w')
                         else w1)
               in w2 \<lparr> line := [] \<rparr>)
         else if length (line w) < 1536 then w \<lparr> line := line w @ [c] \<rparr> else w)"

definition drainSerial :: "JsonLib \<Rightarrow> (char \<times> ulong) list \<Rightarrow> World \<Rightarrow> World" where
  "drainSerial lib bs w = foldl (serialByte lib) w bs"

text \<open>Lines 364-366.\<close>

definition paintWaiting :: "LoopEnv \<Rightarrow> World \<Rightarrow> World" where
  "paintWaiting e w = (if tWait1 e - lastPaint w < 1000 then w else w \<lparr> lastPaint := tWait2 e \<rparr>)"

text \<open>Lines 426-428.\<close>

definition staleCheck :: "LoopEnv \<Rightarrow> World \<Rightarrow> World" where
  "staleCheck e w =
     (if tStale e - lastDataMs w > 4000
      then w \<lparr> ui := (ui w) \<lparr> tamaSleeping := True \<rparr> \<rparr>
      else w)"

text \<open>Lines 494-499.\<close>

definition render :: "LoopEnv \<Rightarrow> World \<Rightarrow> World" where
  "render e w = w \<lparr> ui := drawInfoLines (tZ1 e) (tZ2 e) (drawGauges (ui w)) \<rparr>"

definition loop :: "JsonLib \<Rightarrow> LoopEnv \<Rightarrow> World \<Rightarrow> World" where
  "loop lib e w =
     (let w1 = drainSerial lib (serialIn e) w
      in if lastDataMs w1 = 0 then paintWaiting e w1
         else (let w2 = staleCheck e w1
               in if tGate e - lastAnim w2 < 60 then w2
                  else render e (animate (tick e) (w2 \<lparr> lastAnim := tAnim e \<rparr>))))"

text \<open>Whether a call of \<^verbatim>\<open>loop\<close> gets as far as the animation step.\<close>

definition animates :: "JsonLib \<Rightarrow> LoopEnv \<Rightarrow> World \<Rightarrow> bool" where
  "animates lib e w =
     (let w1 = drainSerial lib (serialIn e) w
      in lastDataMs w1 \<noteq> 0 \<and> \<not> (tGate e - lastAnim w1 < 60))"

text \<open>Successive calls of \<^verbatim>\<open>loop\<close>.\<close>

definition loops :: "JsonLib \<Rightarrow> LoopEnv list \<Rightarrow> World \<Rightarrow> World" where
  "loops lib es w = foldl (\<lambda>w e. loop lib e w) w es"

section \<open>Predicates used in the statements\<close>

text \<open>The displayed CPU value and RAM ratio are in their ranges.\<close>

definition cpuRamInRange :: "UIState \<Rightarrow> bool" where
  "cpuRamInRange u =
     (fle (Fin 0) (curCpu u) \<and> fle (curCpu u) (Fin 100)
      \<and> fle (Fin 0) (curRamRatio u) \<and> fle (curRamRatio u) (Fin 1))"

text \<open>
  The CPU and RAM targets are never negative (nor NaN), and they are the snapshot's values
  whenever the snapshot has them.
\<close>

definition targetsTrack :: "DataState \<Rightarrow> UIState \<Rightarrow> bool" where
  "targetsTrack d u =
     ((if fge (cpu d) (Fin 0) then tgtCpu u = cpu d else fle (Fin 0) (tgtCpu u))
      \<and> (if ram d > 0 \<and> ram_used d \<ge> 0
          then tgtRamRatio u = fdiv (of_long (ram_used d)) (of_long (ram d))
          else fle (Fin 0) (tgtRamRatio u)))"

definition gaugeInv :: "World \<Rightarrow> bool" where
  "gaugeInv w = (cpuRamInRange (ui w) \<and> targetsTrack (dat w) (ui w))"

text \<open>The fields the blink, wink, sweat, ticker and head-bob steps leave alone.\<close>

definition sameCore :: "UIState \<Rightarrow> UIState \<Rightarrow> bool" where
  "sameCore u v =
     (hasData u = hasData v \<and> tgtCpu u = tgtCpu v \<and> tgtRamRatio u = tgtRamRatio v
      \<and> tgtNetRatio u = tgtNetRatio v \<and> curCpu u = curCpu v \<and> curRamRatio u = curRamRatio v
      \<and> curNetRatio u = curNetRatio v \<and> netMaxKBs u = netMaxKBs v
      \<and> tickerText u = tickerText v \<and> tickerW u = tickerW v
      \<and> tamaSleeping u = tamaSleeping v \<and> lowLoadSince u = lowLoadSince v
      \<and> sleepStep u = sleepStep v \<and> sleepMs u = sleepMs v)"

text \<open>The fields a decode leaves alone: the displayed values and the character's state.\<close>

definition sameAnim :: "UIState \<Rightarrow> UIState \<Rightarrow> bool" where
  "sameAnim u v =
     (curCpu u = curCpu v \<and> curRamRatio u = curRamRatio v \<and> curNetRatio u = curNetRatio v
      \<and> tamaSleeping u = tamaSleeping v \<and> lowLoadSince u = lowLoadSince v
      \<and> sleepStep u = sleepStep v \<and> sleepMs u = sleepMs v
      \<and> tamaBlink u = tamaBlink v \<and> tamaWink u = tamaWink v \<and> tamaSweat u = tamaSweat v
      \<and> headBob u = headBob v)"

text \<open>
  A run of \<^verbatim>\<open>loop\<close> calls in which every call that reaches the animation step sees a
  smoothed load under 0.22.
\<close>

fun lowLoadRun :: "JsonLib \<Rightarrow> LoopEnv list \<Rightarrow> World \<Rightarrow> bool" where
  "lowLoadRun lib [] w = True"
| "lowLoadRun lib (e # es) w =
     ((animates lib e w \<longrightarrow> flt (curLoad (ui (loop lib e w))) (Fin 0.22))
      \<and> lowLoadRun lib es (loop lib e w))"

text \<open>The same, with every call reaching the animation step.\<close>

fun lowTickRun :: "JsonLib \<Rightarrow> LoopEnv list \<Rightarrow> World \<Rightarrow> bool" where
  "lowTickRun lib [] w = True"
| "lowTickRun lib (e # es) w =
     (animates lib e w \<and> flt (curLoad (ui (loop lib e w))) (Fin 0.22)
      \<and> lowTickRun lib es (loop lib e w))"

text \<open>
  The ticker as the specification describes it, with the prefixes the code has: each
  available field is a segment of its own (one space before the temperature, two spaces
  and a label before the others), and the text is their concatenation.
\<close>

definition spec_segTemp :: "DataState \<Rightarrow> string" where
  "spec_segTemp d =
     (if isnan (tempC d) then [] else '' '' @ String_of_int (to_int (tempC d)) @ ''C'')"

definition spec_segCpu :: "DataState \<Rightarrow> string" where
  "spec_segCpu d =
     (if fge (cpu d) (Fin 0) then ''  CPU '' @ String_of_int (to_int (cpu d)) @ ''%'' else [])"

definition spec_segRam :: "DataState \<Rightarrow> string" where
  "spec_segRam d =
     (if 0 < ram d \<and> 0 \<le> ram_used d
      then ''  RAM '' @ String_of_int (c_div (ram d - ram_used d) 1024) @ ''MB'' else [])"

definition spec_segDisk :: "DataState \<Rightarrow> string" where
  "spec_segDisk d = (if 0 \<le> diskFreeKB d then ''  DISK '' @ fmtDisk (diskFreeKB d) else [])"

definition spec_segUptime :: "DataState \<Rightarrow> string" where
  "spec_segUptime d = (if 0 \<le> uptime d then ''  UPT '' @ fmtUptime (uptime d) else [])"

definition spec_tickerFields :: "DataState \<Rightarrow> string" where
  "spec_tickerFields d =
     spec_segTemp d @ spec_segCpu d @ spec_segRam d @ spec_segDisk d @ spec_segUptime d"

section \<open>Concrete inputs\<close>

text \<open>
  A library whose parser answers \<open>r\<close> on every line, an animation step and a call of
  \<^verbatim>\<open>loop\<close> during which the clock reads \<open>n\<close> throughout (and \<^verbatim>\<open>random\<close> returns 50 and
  0), and serial bytes that all arrive at time \<open>t\<close>.
\<close>

definition libConst :: "DeserializationError + json \<Rightarrow> JsonLib" where
  "libConst r = \<lparr> deserializeJson = (\<lambda>l. r), serializeJson = (\<lambda>v. []) \<rparr>"

definition tickAt :: "ulong \<Rightarrow> TickEnv" where
  "tickAt n = \<lparr> now = n, nowWake = n, rndWink = 50, rndWinkNext = 0,
     rndSweat = 50, rndSweatNext = 0 \<rparr>"

definition envAt :: "(char \<times> ulong) list \<Rightarrow> ulong \<Rightarrow> LoopEnv" where
  "envAt bs n = \<lparr> serialIn = bs, tWait1 = n, tWait2 = n, tStale = n, tGate = n, tAnim = n,
     tick = tickAt n, tZ1 = n, tZ2 = n \<rparr>"

definition bytesAt :: "string \<Rightarrow> ulong \<Rightarrow> (char \<times> ulong) list" where
  "bytesAt s t = map (\<lambda>c. (c, t)) s"

text \<open>
  A parser that reads every line as the empty object, a complete line arriving at time
  \<open>t\<close>, and the call of \<^verbatim>\<open>loop\<close> at time \<open>t\<close> that receives the line \<^verbatim>\<open>{}\<close>.
\<close>

definition libEmptyObj :: JsonLib where
  "libEmptyObj = libConst (Inr (JObject []))"

definition lineAt :: "string \<Rightarrow> ulong \<Rightarrow> (char \<times> ulong) list" where
  "lineAt s t = bytesAt (s @ [CHR 0x0A]) t"

definition envq :: "ulong \<Rightarrow> LoopEnv" where
  "envq t = envAt (lineAt ''{}'' t) t"

text \<open>A state with no CPU or RAM figure and all four CPU and RAM gauges at 0.\<close>

definition quiet :: "World \<Rightarrow> bool" where
  "quiet w = (\<not> fge (cpu (dat w)) (Fin 0) \<and> ram (dat w) \<le> 0
     \<and> tgtCpu (ui w) = Fin 0 \<and> tgtRamRatio (ui w) = Fin 0
     \<and> curCpu (ui w) = Fin 0 \<and> curRamRatio (ui w) = Fin 0 \<and> line w = [])"

text \<open>
  A state under full load with the character asleep, in the second phase of the sleep
  animation, the last message decoded at 900 ms.
\<close>

definition worldHot :: World where
  "worldHot = world0 \<lparr> ui := ui0 \<lparr> tgtCpu := Fin 100, tgtRamRatio := Fin 1, curCpu := Fin 100,
       curRamRatio := Fin 1, tamaSleeping := True, lowLoadSince := 77, sleepStep := 2 \<rparr>,
     lastDataMs := 900 \<rparr>"

text \<open>
  A state in which both network rates are known and the scale stands at 100, and three
  parsed messages: a CPU figure alone, figures beyond their ranges, and the message of
  the specification's end-to-end example with its text.
\<close>

definition worldNet :: World where
  "worldNet = world0 \<lparr> dat := data0 \<lparr> net_rx := Fin 10, net_tx := Fin 10 \<rparr>,
     ui := ui0 \<lparr> hasData := True, tgtNetRatio := Fin 0.2, netMaxKBs := Fin 100 \<rparr> \<rparr>"

definition docCpu :: json where
  "docCpu = JObject [(''cpu'', JInt 55)]"

definition docOver :: json where
  "docOver = JObject [(''cpu'', JInt 150), (''ram'', JInt 1000), (''ram_used'', JInt 3000)]"

definition docHalf :: json where
  "docHalf = JObject [(''cpu'', JInt 55), (''ram'', JInt 8000000), (''ram_used'', JInt 4000000)]"

definition lineHalf :: string where
  "lineHalf = ''{\"cpu\":55,\"ram\":8000000,\"ram_used\":4000000}''"

definition lineOver :: string where
  "lineOver = ''{\"cpu\":150,\"ram\":1000,\"ram_used\":3000}''"

text \<open>
  A message with a temperature alone and one with every ticker field, with their texts
  and the snapshots they leave when decoded in the initial state.
\<close>

definition docTemp :: json where
  "docTemp = JObject [(''weather'', JObject [(''temp'', JFloat 21.5)])]"

definition dataTemp :: DataState where
  "dataTemp = data0 \<lparr> tempC := Fin 21.5 \<rparr>"

definition lineTemp :: string where
  "lineTemp = ''{\"weather\":{\"temp\":21.5}}''"

definition docFull :: json where
  "docFull = JObject [(''cpu'', JInt 55), (''ram'', JInt 8000000), (''ram_used'', JInt 4000000),
     (''weather'', JObject [(''temp'', JFloat 21.5)]), (''disk_free'', JInt 52428800),
     (''uptime'', JInt 93784)]"

definition dataFull :: DataState where
  "dataFull = data0 \<lparr> cpu := Fin 55, ram := 8000000, ram_used := 4000000, tempC := Fin 21.5,
     uptime := 93784, diskFreeKB := 52428800 \<rparr>"

definition lineFull :: string where
  "lineFull = ''{\"cpu\":55,\"ram\":8000000,\"ram_used\":4000000,\"weather\":{\"temp\":21.5},\"disk_free\":52428800,\"uptime\":93784}''"

text \<open>
  A message at full load with its text, and three snapshots: full load, light load and
  the half load of the specification's end-to-end example.
\<close>

definition docFullLoad :: json where
  "docFullLoad = JObject [(''cpu'', JInt 100), (''ram'', JInt 1000), (''ram_used'', JInt 1000)]"

definition lineFullLoad :: string where
  "lineFullLoad = ''{\"cpu\":100,\"ram\":1000,\"ram_used\":1000}''"

definition dataFullLoad :: DataState where
  "dataFullLoad = data0 \<lparr> cpu := Fin 100, ram := 1000, ram_used := 1000 \<rparr>"

definition dataLight :: DataState where
  "dataLight = data0 \<lparr> cpu := Fin 10, ram := 8000000, ram_used := 800000 \<rparr>"

definition dataHalf :: DataState where
  "dataHalf = data0 \<lparr> cpu := Fin 55, ram := 8000000, ram_used := 4000000 \<rparr>"

text \<open>
  A message whose two network rates are finite single-precision values with a sum beyond
  the single-precision range, with its text and the snapshot it leaves when decoded in
  the initial state.
\<close>

definition docBurst :: json where
  "docBurst = JObject [(''net'', JObject [(''rx'', JFloat (2 * 10 ^ 38)), (''tx'', JFloat (2 * 10 ^ 38))])]"

definition lineBurst :: string where
  "lineBurst = ''{\"net\":{\"rx\":2e38,\"tx\":2e38}}''"

definition dataBurst :: DataState where
  "dataBurst = data0 \<lparr> net_rx := Fin (2 * 10 ^ 38), net_tx := Fin (2 * 10 ^ 38) \<rparr>"

text \<open>
  Clock values 60 ms apart, and the condition under which calls of \<^verbatim>\<open>loop\<close> at the times
  \<open>ts\<close> all animate (\<open>la\<close> is the time of the animation step before them) without any of
  them being more than 9000 ms after \<open>t0\<close>.
\<close>

fun timesFrom :: "ulong \<Rightarrow> nat \<Rightarrow> ulong list" where
  "timesFrom t 0 = []"
| "timesFrom t (Suc n) = t # timesFrom (t + 60) n"

fun stepsOk :: "ulong \<Rightarrow> ulong \<Rightarrow> ulong list \<Rightarrow> bool" where
  "stepsOk la t0 [] = True"
| "stepsOk la t0 (t # ts) = (t \<noteq> 0 \<and> \<not> t - la < 60 \<and> \<not> 9000 < t - t0 \<and> stepsOk t t0 ts)"

section \<open>Frame lemmas and invariants\<close>

subsection \<open>Single-precision arithmetic\<close>

lemma ovf_not_nan: "ovf x \<noteq> NaN"
  by (simp add: ovf_def)

lemma FLT_OVF_pos: "0 < FLT_OVF"
  by (simp add: FLT_OVF_def)

lemma FLT_OVF_gt1: "1 < FLT_OVF"
  by (simp add: FLT_OVF_def)

lemma ovf_zero: "ovf 0 = Fin 0"
  using FLT_OVF_pos by (simp add: ovf_def)

lemma ovf_Fin: "- FLT_OVF < x \<Longrightarrow> x < FLT_OVF \<Longrightarrow> ovf x = Fin x"
  by (simp add: ovf_def)

lemma ovf_nonneg: "0 \<le> x \<Longrightarrow> fle (Fin 0) (ovf x)"
  using FLT_OVF_pos by (simp add: ovf_def)

lemma fle_range: "fle (Fin lo) x \<and> fle x (Fin hi) \<longleftrightarrow> (\<exists>r. x = Fin r \<and> lo \<le> r \<and> r \<le> hi)"
  by (cases x) auto

lemma fle_not_flt: "fle a b \<Longrightarrow> \<not> flt b a"
  by (cases a; cases b) auto

lemma fle_not_nan: "fle a b \<Longrightarrow> a \<noteq> NaN \<and> b \<noteq> NaN"
  by (cases a; cases b) auto

lemma fadd_Fin_not_nan: "x \<noteq> NaN \<Longrightarrow> fadd (Fin c) x \<noteq> NaN"
  by (cases x) (simp_all add: ovf_not_nan)

lemma fsub_Fin_not_nan: "x \<noteq> NaN \<Longrightarrow> fsub x (Fin c) \<noteq> NaN"
  by (cases x) (simp_all add: fsub_def ovf_not_nan)

lemma fmul_pos_not_nan: "x \<noteq> NaN \<Longrightarrow> 0 < k \<Longrightarrow> fmul x (Fin k) \<noteq> NaN"
  by (cases x) (simp_all add: ovf_not_nan)

lemma ratio_le_one:
  assumes "0 < b" "0 \<le> a" "a \<le> b"
  shows "fle (fdiv (of_long a) (of_long b)) (Fin 1)"
proof -
  have 1: "real_of_int a / real_of_int b \<le> 1" using assms by simp
  have 0: "0 \<le> real_of_int a / real_of_int b" using assms by simp
  have "ovf (real_of_int a / real_of_int b) = Fin (real_of_int a / real_of_int b)"
    using 0 1 FLT_OVF_gt1 by (intro ovf_Fin) linarith+
  then show ?thesis using assms 1 by (simp add: of_long_def)
qed

lemma flt_asym: "flt a b \<Longrightarrow> \<not> flt b a"
  by (cases a; cases b) auto

lemma flt_trans: "flt a b \<Longrightarrow> flt b c \<Longrightarrow> flt a c"
  by (cases a; cases b; cases c) auto

lemma fadd_zero_left: "fadd (Fin 0) (fdiv x y) = fdiv x y"
  using FLT_OVF_pos by (cases x; cases y) (simp_all add: ovf_def)

lemma fadd_zero_right: "fadd (fdiv x y) (Fin 0) = fdiv x y"
  using FLT_OVF_pos by (cases x; cases y) (simp_all add: ovf_def)

subsection \<open>The animation step\<close>

lemma clamp_range:
  assumes "x \<noteq> NaN" "lo \<le> hi"
  shows "\<exists>r. (if fgt (if flt x (Fin lo) then Fin lo else x) (Fin hi) then Fin hi
              else (if flt x (Fin lo) then Fin lo else x)) = Fin r \<and> lo \<le> r \<and> r \<le> hi"
  using assms by (cases x) (auto simp: fgt_def)

lemma smoothClamp_fin:
  assumes "tgt \<noteq> NaN" "lo \<le> hi"
  shows "\<exists>r. smoothClamp (Fin lo) (Fin hi) tgt (Fin c) = Fin r \<and> lo \<le> r \<and> r \<le> hi"
proof -
  have "fadd (Fin c) (fmul (fsub tgt (Fin c)) (Fin 0.15)) \<noteq> NaN"
    using assms(1) by (intro fadd_Fin_not_nan fmul_pos_not_nan fsub_Fin_not_nan) simp_all
  then show ?thesis
    using clamp_range [OF _ assms(2)] by (simp add: smoothClamp_def Let_def)
qed

lemma smoothClamp_nan: "smoothClamp lo hi NaN cur = NaN"
  by (cases cur) (simp_all add: smoothClamp_def Let_def fsub_def fgt_def)

lemma tickerStep_shape: "\<exists>x. tickerStep u = u \<lparr> tickerX := x \<rparr>"
  unfolding tickerStep_def Let_def by blast

lemma blinkStep_shape:
  "\<exists>a b c d p. blinkStep n u = u \<lparr> tamaBlink := a, tamaBlinkUntil := b, tamaNextBlink := c,
      tamaMouthMs := d, tamaMouthPhase := p \<rparr>"
proof -
  let ?r = "blinkStep n u"
  have "?r = u \<lparr> tamaBlink := tamaBlink ?r, tamaBlinkUntil := tamaBlinkUntil ?r,
      tamaNextBlink := tamaNextBlink ?r, tamaMouthMs := tamaMouthMs ?r,
      tamaMouthPhase := tamaMouthPhase ?r \<rparr>"
    by (simp add: blinkStep_def Let_def)
  then show ?thesis by blast
qed

lemma winkStep_shape:
  "\<exists>a b c. winkStep e w = w \<lparr> ui := (ui w) \<lparr> tamaWink := a, tamaWinkUntil := b \<rparr>, nextWink := c \<rparr>"
proof -
  let ?r = "winkStep e w"
  have "?r = w \<lparr> ui := (ui w) \<lparr> tamaWink := tamaWink (ui ?r), tamaWinkUntil := tamaWinkUntil (ui ?r) \<rparr>,
      nextWink := nextWink ?r \<rparr>"
    by (simp add: winkStep_def Let_def)
  then show ?thesis by blast
qed

lemma sweatStep_shape:
  "\<exists>a b c. sweatStep e w = w \<lparr> ui := (ui w) \<lparr> tamaSweat := a, tamaSweatUntil := b \<rparr>, nextSweat := c \<rparr>"
proof -
  let ?r = "sweatStep e w"
  have "?r = w \<lparr> ui := (ui w) \<lparr> tamaSweat := tamaSweat (ui ?r), tamaSweatUntil := tamaSweatUntil (ui ?r) \<rparr>,
      nextSweat := nextSweat ?r \<rparr>"
    by (simp add: sweatStep_def Let_def)
  then show ?thesis by blast
qed

lemma sameCore_refl: "sameCore u u"
  by (simp add: sameCore_def)

lemma sameCore_trans: "sameCore u v \<Longrightarrow> sameCore v x \<Longrightarrow> sameCore u x"
  by (simp add: sameCore_def)

lemma tickerStep_core: "sameCore (tickerStep u) u"
proof -
  obtain x where "tickerStep u = u \<lparr> tickerX := x \<rparr>"
    using tickerStep_shape by blast
  then show ?thesis by (simp add: sameCore_def)
qed

lemma blinkStep_core: "sameCore (blinkStep n u) u"
proof -
  obtain a b c d p where "blinkStep n u = u \<lparr> tamaBlink := a, tamaBlinkUntil := b,
      tamaNextBlink := c, tamaMouthMs := d, tamaMouthPhase := p \<rparr>"
    using blinkStep_shape by blast
  then show ?thesis by (simp add: sameCore_def)
qed

lemma headBobStep_core: "sameCore (headBobStep n u) u"
  by (simp add: sameCore_def headBobStep_def)

lemma winkStep_frame:
  "sameCore (ui (winkStep e w)) (ui w) \<and> dat (winkStep e w) = dat w
   \<and> lastDataMs (winkStep e w) = lastDataMs w \<and> appName (winkStep e w) = appName w
   \<and> line (winkStep e w) = line w \<and> lastAnim (winkStep e w) = lastAnim w
   \<and> serialOut (winkStep e w) = serialOut w \<and> lastPaint (winkStep e w) = lastPaint w"
proof -
  obtain a b c where "winkStep e w
      = w \<lparr> ui := (ui w) \<lparr> tamaWink := a, tamaWinkUntil := b \<rparr>, nextWink := c \<rparr>"
    using winkStep_shape by blast
  then show ?thesis by (simp add: sameCore_def)
qed

lemma sweatStep_frame:
  "sameCore (ui (sweatStep e w)) (ui w) \<and> dat (sweatStep e w) = dat w
   \<and> lastDataMs (sweatStep e w) = lastDataMs w \<and> appName (sweatStep e w) = appName w
   \<and> line (sweatStep e w) = line w \<and> lastAnim (sweatStep e w) = lastAnim w
   \<and> serialOut (sweatStep e w) = serialOut w \<and> lastPaint (sweatStep e w) = lastPaint w"
proof -
  obtain a b c where "sweatStep e w
      = w \<lparr> ui := (ui w) \<lparr> tamaSweat := a, tamaSweatUntil := b \<rparr>, nextSweat := c \<rparr>"
    using sweatStep_shape by blast
  then show ?thesis by (simp add: sameCore_def)
qed

lemma animate_shape:
  "\<exists>u'. ui (animate e w) = sleepMachine (now e) (nowWake e) (lastDataMs w) u'
       \<and> sameCore u' (smoothStep (ui w))"
proof -
  define w1 where "w1 = w \<lparr> ui := blinkStep (now e) (tickerStep (smoothStep (ui w))) \<rparr>"
  define w2 where "w2 = sweatStep e (winkStep e w1)"
  have c1: "sameCore (ui w1) (smoothStep (ui w))"
    using sameCore_trans [OF blinkStep_core tickerStep_core] by (simp add: w1_def)
  have c2: "sameCore (ui w2) (ui w1)"
    unfolding w2_def using sameCore_trans sweatStep_frame winkStep_frame by blast
  have l2: "lastDataMs w2 = lastDataMs w"
    unfolding w2_def using sweatStep_frame [of e "winkStep e w1"] winkStep_frame [of e w1]
    by (simp add: w1_def)
  have 1: "ui (animate e w)
      = sleepMachine (now e) (nowWake e) (lastDataMs w) (headBobStep (now e) (ui w2))"
    by (simp add: animate_def Let_def w1_def [symmetric] w2_def [symmetric] l2)
  have 2: "sameCore (headBobStep (now e) (ui w2)) (smoothStep (ui w))"
    using sameCore_trans [OF headBobStep_core] sameCore_trans [OF c2 c1] by blast
  from 1 2 show ?thesis by blast
qed

lemma animate_frame:
  "dat (animate e w) = dat w \<and> lastDataMs (animate e w) = lastDataMs w
   \<and> appName (animate e w) = appName w \<and> line (animate e w) = line w
   \<and> lastAnim (animate e w) = lastAnim w \<and> serialOut (animate e w) = serialOut w
   \<and> lastPaint (animate e w) = lastPaint w"
proof -
  define w1 where "w1 = w \<lparr> ui := blinkStep (now e) (tickerStep (smoothStep (ui w))) \<rparr>"
  define w2 where "w2 = sweatStep e (winkStep e w1)"
  have a: "animate e w = w2 \<lparr> ui := sleepMachine (now e) (nowWake e) (lastDataMs w2)
       (headBobStep (now e) (ui w2)) \<rparr>"
    by (simp add: animate_def Let_def w1_def w2_def)
  have "dat w2 = dat w \<and> lastDataMs w2 = lastDataMs w \<and> appName w2 = appName w
      \<and> line w2 = line w \<and> lastAnim w2 = lastAnim w \<and> serialOut w2 = serialOut w
      \<and> lastPaint w2 = lastPaint w"
    unfolding w2_def using sweatStep_frame [of e "winkStep e w1"] winkStep_frame [of e w1]
    by (simp add: w1_def)
  then show ?thesis by (simp add: a)
qed

lemma sleepMachine_shape:
  "\<exists>a b c. sleepMachine n m l u = u \<lparr> lowLoadSince := a, tamaSleeping := b, sleepStep := c \<rparr>"
proof -
  let ?r = "sleepMachine n m l u"
  have "?r = u \<lparr> lowLoadSince := lowLoadSince ?r, tamaSleeping := tamaSleeping ?r,
      sleepStep := sleepStep ?r \<rparr>"
    by (simp add: sleepMachine_def Let_def)
  then show ?thesis by blast
qed

lemma animate_gauges:
  "curCpu (ui (animate e w)) = smoothClamp (Fin 0) (Fin 100) (tgtCpu (ui w)) (curCpu (ui w))
   \<and> curRamRatio (ui (animate e w)) = smoothClamp (Fin 0) (Fin 1) (tgtRamRatio (ui w)) (curRamRatio (ui w))
   \<and> curNetRatio (ui (animate e w)) = smoothClamp (Fin 0) (Fin 1) (tgtNetRatio (ui w)) (curNetRatio (ui w))
   \<and> tgtCpu (ui (animate e w)) = tgtCpu (ui w)
   \<and> tgtRamRatio (ui (animate e w)) = tgtRamRatio (ui w)
   \<and> tgtNetRatio (ui (animate e w)) = tgtNetRatio (ui w)
   \<and> netMaxKBs (ui (animate e w)) = netMaxKBs (ui w)
   \<and> tickerText (ui (animate e w)) = tickerText (ui w)
   \<and> hasData (ui (animate e w)) = hasData (ui w)"
proof -
  obtain u' where 1: "ui (animate e w) = sleepMachine (now e) (nowWake e) (lastDataMs w) u'"
    and 2: "sameCore u' (smoothStep (ui w))"
    using animate_shape by blast
  obtain a b c where 3: "sleepMachine (now e) (nowWake e) (lastDataMs w) u'
      = u' \<lparr> lowLoadSince := a, tamaSleeping := b, sleepStep := c \<rparr>"
    using sleepMachine_shape by blast
  from 2 show ?thesis
    by (simp add: 1 3 sameCore_def smoothStep_def)
qed

lemma targetsTrack_nonneg:
  assumes "targetsTrack d u"
  shows "fle (Fin 0) (tgtCpu u) \<and> fle (Fin 0) (tgtRamRatio u)"
proof -
  have "fle (Fin 0) (fdiv (of_long a) (of_long b))" if "0 < b" "0 \<le> a" for a b
    using that ovf_nonneg [of "real_of_int a / real_of_int b"] by (simp add: of_long_def)
  then show ?thesis
    using assms by (auto simp: targetsTrack_def fge_def split: if_splits)
qed

lemma animate_gaugeInv:
  assumes "gaugeInv w"
  shows "gaugeInv (animate e w)"
proof -
  obtain c r where c: "curCpu (ui w) = Fin c" and r: "curRamRatio (ui w) = Fin r"
    using assms fle_range [of 0 "curCpu (ui w)" 100] fle_range [of 0 "curRamRatio (ui w)" 1]
    by (auto simp: gaugeInv_def cpuRamInRange_def)
  have "fle (Fin 0) (tgtCpu (ui w)) \<and> fle (Fin 0) (tgtRamRatio (ui w))"
    using assms targetsTrack_nonneg [of "dat w" "ui w"] by (simp add: gaugeInv_def)
  then have tn: "tgtCpu (ui w) \<noteq> NaN" "tgtRamRatio (ui w) \<noteq> NaN"
    using fle_not_nan [of "Fin 0" "tgtCpu (ui w)"] fle_not_nan [of "Fin 0" "tgtRamRatio (ui w)"]
    by simp_all
  have 1: "fle (Fin 0) (curCpu (ui (animate e w))) \<and> fle (curCpu (ui (animate e w))) (Fin 100)"
    using smoothClamp_fin [OF tn(1), of 0 100 c] by (auto simp: animate_gauges c)
  have 2: "fle (Fin 0) (curRamRatio (ui (animate e w))) \<and> fle (curRamRatio (ui (animate e w))) (Fin 1)"
    using smoothClamp_fin [OF tn(2), of 0 1 r] by (auto simp: animate_gauges r)
  show ?thesis
    using assms 1 2 by (simp add: gaugeInv_def cpuRamInRange_def targetsTrack_def animate_gauges animate_frame)
qed

subsection \<open>Decoding\<close>

lemma updateTargets_shape:
  "\<exists>a b c d. updateTargets d0 u = u \<lparr> tgtCpu := a, tgtRamRatio := b, tgtNetRatio := c, netMaxKBs := d \<rparr>"
proof -
  let ?r = "updateTargets d0 u"
  have "?r = u \<lparr> tgtCpu := tgtCpu ?r, tgtRamRatio := tgtRamRatio ?r,
      tgtNetRatio := tgtNetRatio ?r, netMaxKBs := netMaxKBs ?r \<rparr>"
    by (simp add: updateTargets_def netTarget_def Let_def)
  then show ?thesis by blast
qed

lemma updateTargets_cpu_ram:
  "tgtCpu (updateTargets d u) = (if fge (cpu d) (Fin 0) then cpu d else tgtCpu u)
   \<and> tgtRamRatio (updateTargets d u)
       = (if ram d > 0 \<and> ram_used d \<ge> 0 then fdiv (of_long (ram_used d)) (of_long (ram d))
          else tgtRamRatio u)"
  by (simp add: updateTargets_def netTarget_def Let_def)

lemma updateTicker_shape:
  "updateTicker d0 u = u \<lparr> tickerText := tickerBody d0 @ ''   '',
     tickerW := max 1 (textWidth (tickerBody d0 @ ''   '') 1),
     tickerX := min SCREEN_WIDTH (tickerX u) \<rparr>"
  by (simp add: updateTicker_def Let_def max_def min_def)

lemma readValues_frame:
  "ui (readValues lib doc w) = ui w \<and> line (readValues lib doc w) = line w
   \<and> lastDataMs (readValues lib doc w) = lastDataMs w
   \<and> lastAnim (readValues lib doc w) = lastAnim w
   \<and> serialOut (readValues lib doc w) = serialOut w
   \<and> lastPaint (readValues lib doc w) = lastPaint w
   \<and> nextWink (readValues lib doc w) = nextWink w
   \<and> nextSweat (readValues lib doc w) = nextSweat w"
  by (simp add: readValues_def Let_def)

lemma decode_ok:
  assumes "deserializeJson lib l = Inr doc"
  shows "updateFromJsonLine lib l w
     = (True, (readValues lib doc w) \<lparr> ui := (updateTicker (dat (readValues lib doc w))
          (updateTargets (dat (readValues lib doc w)) (ui w))) \<lparr> hasData := True \<rparr> \<rparr>)"
  using assms by (simp add: updateFromJsonLine_def Let_def readValues_frame)

lemma decode_fail:
  assumes "deserializeJson lib l = Inl err"
  shows "updateFromJsonLine lib l w
     = (False, w \<lparr> serialOut := serialOut w @ [''Erreur JSON: '' @ f_str err] \<rparr>)"
  using assms by (simp add: updateFromJsonLine_def)

lemma decode_frame:
  "sameAnim (ui (snd (updateFromJsonLine lib l w))) (ui w)
   \<and> lastAnim (snd (updateFromJsonLine lib l w)) = lastAnim w
   \<and> lastDataMs (snd (updateFromJsonLine lib l w)) = lastDataMs w
   \<and> line (snd (updateFromJsonLine lib l w)) = line w"
proof (cases "deserializeJson lib l")
  case (Inl err)
  then show ?thesis by (simp add: decode_fail sameAnim_def)
next
  case (Inr doc)
  obtain a b c d where t: "updateTargets (dat (readValues lib doc w)) (ui w)
      = (ui w) \<lparr> tgtCpu := a, tgtRamRatio := b, tgtNetRatio := c, netMaxKBs := d \<rparr>"
    using updateTargets_shape by blast
  show ?thesis
    by (simp add: decode_ok [OF Inr] updateTicker_shape t sameAnim_def readValues_frame)
qed

lemma updateTargets_inv:
  assumes "fle (Fin 0) (tgtCpu u)" "fle (Fin 0) (tgtRamRatio u)"
  shows "targetsTrack d (updateTargets d u)"
  using assms by (simp add: targetsTrack_def updateTargets_cpu_ram)

lemma decode_gaugeInv:
  assumes "gaugeInv w"
  shows "gaugeInv (snd (updateFromJsonLine lib l w))"
proof (cases "deserializeJson lib l")
  case (Inl err)
  then show ?thesis using assms by (simp add: decode_fail gaugeInv_def)
next
  case (Inr doc)
  define d where "d = dat (readValues lib doc w)"
  have n: "fle (Fin 0) (tgtCpu (ui w)) \<and> fle (Fin 0) (tgtRamRatio (ui w))"
    using assms targetsTrack_nonneg [of "dat w" "ui w"] by (simp add: gaugeInv_def)
  have t: "targetsTrack d (updateTargets d (ui w))"
    using updateTargets_inv [of "ui w" d] n by simp
  have c: "cpuRamInRange (ui (snd (updateFromJsonLine lib l w)))"
    using decode_frame [of lib l w] assms by (simp add: gaugeInv_def cpuRamInRange_def sameAnim_def)
  have "targetsTrack (dat (snd (updateFromJsonLine lib l w))) (ui (snd (updateFromJsonLine lib l w)))"
    using t by (simp add: decode_ok [OF Inr] d_def [symmetric] updateTicker_shape targetsTrack_def)
  with c show ?thesis by (simp add: gaugeInv_def)
qed

subsection \<open>The serial drain and the loop\<close>

lemma sameAnim_refl: "sameAnim u u"
  by (simp add: sameAnim_def)

lemma sameAnim_trans: "sameAnim u v \<Longrightarrow> sameAnim v x \<Longrightarrow> sameAnim u x"
  by (simp add: sameAnim_def)

lemma serialByte_shape:
  "(\<exists>l'. serialByte lib w ct = w \<lparr> line := l' \<rparr>)
   \<or> (\<exists>l t'. serialByte lib w ct
         = (snd (updateFromJsonLine lib l (w \<lparr> line := l \<rparr>))) \<lparr> lastDataMs := t', line := [] \<rparr>)"
proof (cases "(fst ct = CHR 0x0A \<or> fst ct = CHR 0x0D) \<and> length (trim (line w)) > 0")
  case True
  define l where "l = trim (line w)"
  define r where "r = updateFromJsonLine lib l (w \<lparr> line := l \<rparr>)"
  have "serialByte lib w ct
      = (snd r) \<lparr> lastDataMs := (if fst r then snd ct else lastDataMs (snd r)), line := [] \<rparr>"
    using True by (cases r) (auto simp: serialByte_def Let_def l_def r_def)
  then show ?thesis unfolding r_def by blast
next
  case False
  then have "serialByte lib w ct = w \<lparr> line := line (serialByte lib w ct) \<rparr>"
    by (auto simp: serialByte_def Let_def)
  then show ?thesis by blast
qed

lemma serialByte_frame:
  "sameAnim (ui (serialByte lib w ct)) (ui w) \<and> lastAnim (serialByte lib w ct) = lastAnim w"
  using serialByte_shape [of lib w ct]
proof (elim disjE exE)
  fix l' assume "serialByte lib w ct = w \<lparr> line := l' \<rparr>"
  then show ?thesis by (simp add: sameAnim_refl)
next
  fix l t' assume "serialByte lib w ct
         = (snd (updateFromJsonLine lib l (w \<lparr> line := l \<rparr>))) \<lparr> lastDataMs := t', line := [] \<rparr>"
  then show ?thesis using decode_frame [of lib l "w \<lparr> line := l \<rparr>"] by simp
qed

lemma serialByte_gaugeInv: "gaugeInv w \<Longrightarrow> gaugeInv (serialByte lib w ct)"
  using serialByte_shape [of lib w ct]
proof (elim disjE exE)
  fix l' assume "gaugeInv w" "serialByte lib w ct = w \<lparr> line := l' \<rparr>"
  then show ?thesis by (simp add: gaugeInv_def)
next
  fix l t' assume a: "gaugeInv w" and b: "serialByte lib w ct
         = (snd (updateFromJsonLine lib l (w \<lparr> line := l \<rparr>))) \<lparr> lastDataMs := t', line := [] \<rparr>"
  have "gaugeInv (w \<lparr> line := l \<rparr>)" using a by (simp add: gaugeInv_def)
  then have "gaugeInv (snd (updateFromJsonLine lib l (w \<lparr> line := l \<rparr>)))"
    by (rule decode_gaugeInv)
  then show ?thesis by (simp add: b gaugeInv_def)
qed

lemma drainSerial_frame:
  "sameAnim (ui (drainSerial lib bs w)) (ui w) \<and> lastAnim (drainSerial lib bs w) = lastAnim w"
proof (induction bs arbitrary: w)
  case Nil
  then show ?case by (simp add: drainSerial_def sameAnim_refl)
next
  case (Cons b bs)
  have "drainSerial lib (b # bs) w = drainSerial lib bs (serialByte lib w b)"
    by (simp add: drainSerial_def)
  then show ?case
    using Cons.IH [of "serialByte lib w b"] serialByte_frame [of lib w b] sameAnim_trans
    by auto
qed

lemma drainSerial_gaugeInv: "gaugeInv w \<Longrightarrow> gaugeInv (drainSerial lib bs w)"
proof (induction bs arbitrary: w)
  case Nil
  then show ?case by (simp add: drainSerial_def)
next
  case (Cons b bs)
  have "drainSerial lib (b # bs) w = drainSerial lib bs (serialByte lib w b)"
    by (simp add: drainSerial_def)
  then show ?case using Cons serialByte_gaugeInv by simp
qed

lemma render_shape:
  "\<exists>a b. ui (render e w) = (ui w) \<lparr> gaugesBottomY := 45, sleepMs := a, sleepStep := b \<rparr>"
proof -
  let ?r = "ui (render e w)"
  have "?r = (ui w) \<lparr> gaugesBottomY := 45, sleepMs := sleepMs ?r, sleepStep := sleepStep ?r \<rparr>"
    by (simp add: render_def drawInfoLines_def drawGauges_def)
  then show ?thesis by blast
qed

lemma render_frame:
  "dat (render e w) = dat w \<and> lastDataMs (render e w) = lastDataMs w
   \<and> curCpu (ui (render e w)) = curCpu (ui w) \<and> curRamRatio (ui (render e w)) = curRamRatio (ui w)
   \<and> curNetRatio (ui (render e w)) = curNetRatio (ui w)
   \<and> tgtCpu (ui (render e w)) = tgtCpu (ui w) \<and> tgtRamRatio (ui (render e w)) = tgtRamRatio (ui w)
   \<and> tgtNetRatio (ui (render e w)) = tgtNetRatio (ui w)
   \<and> netMaxKBs (ui (render e w)) = netMaxKBs (ui w)
   \<and> tamaSleeping (ui (render e w)) = tamaSleeping (ui w)
   \<and> lowLoadSince (ui (render e w)) = lowLoadSince (ui w)"
proof -
  obtain a b where "ui (render e w) = (ui w) \<lparr> gaugesBottomY := 45, sleepMs := a, sleepStep := b \<rparr>"
    using render_shape by blast
  then show ?thesis by (simp add: render_def)
qed

lemma render_gaugeInv: "gaugeInv w \<Longrightarrow> gaugeInv (render e w)"
  by (simp add: gaugeInv_def cpuRamInRange_def targetsTrack_def render_frame)

lemma staleCheck_gaugeInv: "gaugeInv w \<Longrightarrow> gaugeInv (staleCheck e w)"
  by (simp add: gaugeInv_def cpuRamInRange_def targetsTrack_def staleCheck_def)

lemma paintWaiting_ui: "ui (paintWaiting e w) = ui w \<and> dat (paintWaiting e w) = dat w"
  by (simp add: paintWaiting_def)

lemma loop_gaugeInv: "gaugeInv w \<Longrightarrow> gaugeInv (loop lib e w)"
proof -
  assume a: "gaugeInv w"
  define w1 where "w1 = drainSerial lib (serialIn e) w"
  define w2 where "w2 = staleCheck e w1"
  have 1: "gaugeInv w1" using a drainSerial_gaugeInv by (simp add: w1_def)
  have 2: "gaugeInv w2" using 1 staleCheck_gaugeInv by (simp add: w2_def)
  have 3: "gaugeInv (w2 \<lparr> lastAnim := tAnim e \<rparr>)" using 2 by (simp add: gaugeInv_def)
  have 4: "gaugeInv (render e (animate (tick e) (w2 \<lparr> lastAnim := tAnim e \<rparr>)))"
    using 3 animate_gaugeInv render_gaugeInv by blast
  have 5: "gaugeInv (paintWaiting e w1)"
    using 1 by (simp add: gaugeInv_def paintWaiting_ui)
  show ?thesis
    using 2 4 5 by (simp add: loop_def Let_def w1_def [symmetric] w2_def [symmetric])
qed

lemma loops_gaugeInv: "gaugeInv w \<Longrightarrow> gaugeInv (loops lib es w)"
proof (induction es arbitrary: w)
  case Nil
  then show ?case by (simp add: loops_def)
next
  case (Cons e es)
  have "loops lib (e # es) w = loops lib es (loop lib e w)"
    by (simp add: loops_def)
  then show ?case using Cons loop_gaugeInv by simp
qed

lemma world0_gaugeInv: "gaugeInv world0"
  by (simp add: gaugeInv_def cpuRamInRange_def targetsTrack_def world0_def ui0_def data0_def fge_def)

lemma loop_anim:
  assumes "animates lib e w"
  shows "loop lib e w = render e (animate (tick e)
      ((staleCheck e (drainSerial lib (serialIn e) w)) \<lparr> lastAnim := tAnim e \<rparr>))"
proof -
  have "lastAnim (staleCheck e (drainSerial lib (serialIn e) w))
      = lastAnim (drainSerial lib (serialIn e) w)"
    by (simp add: staleCheck_def)
  then show ?thesis
    using assms by (simp add: loop_def animates_def Let_def)
qed

subsection \<open>The sleep machine\<close>

lemma sleepMachine_low:
  assumes "flt (curLoad u) (Fin 0.22)"
  shows "lowLoadSince (sleepMachine n m l u) = (if lowLoadSince u = 0 then n else lowLoadSince u)
    \<and> tamaSleeping (sleepMachine n m l u)
        = (tamaSleeping u \<or> n - (if lowLoadSince u = 0 then n else lowLoadSince u) > 9000)
    \<and> sleepStep (sleepMachine n m l u) = sleepStep u"
  using assms by (auto simp: sleepMachine_def Let_def)

lemma sleepMachine_high:
  assumes "\<not> flt (curLoad u) (Fin 0.22)"
  shows "lowLoadSince (sleepMachine n m l u) = 0 \<and> sleepStep (sleepMachine n m l u) = 0
    \<and> tamaSleeping (sleepMachine n m l u) = (tamaSleeping u \<and> m - l > 4000)"
  using assms by (auto simp: sleepMachine_def Let_def)

lemma sleepMachine_curLoad: "curLoad (sleepMachine n m l u) = curLoad u"
proof -
  obtain a b c where "sleepMachine n m l u = u \<lparr> lowLoadSince := a, tamaSleeping := b, sleepStep := c \<rparr>"
    using sleepMachine_shape by blast
  then show ?thesis by (simp add: curLoad_def)
qed

lemma animate_curLoad: "curLoad (ui (animate e w)) = curLoad (smoothStep (ui w))"
  by (simp add: curLoad_def animate_gauges smoothStep_def)

lemma animate_low:
  assumes "flt (curLoad (ui (animate e w))) (Fin 0.22)"
  shows "lowLoadSince (ui (animate e w)) = (if lowLoadSince (ui w) = 0 then now e else lowLoadSince (ui w))
    \<and> tamaSleeping (ui (animate e w))
        = (tamaSleeping (ui w) \<or> now e - (if lowLoadSince (ui w) = 0 then now e else lowLoadSince (ui w)) > 9000)
    \<and> sleepStep (ui (animate e w)) = sleepStep (ui w)"
proof -
  obtain u' where 1: "ui (animate e w) = sleepMachine (now e) (nowWake e) (lastDataMs w) u'"
    and 2: "sameCore u' (smoothStep (ui w))"
    using animate_shape by blast
  have 3: "lowLoadSince u' = lowLoadSince (ui w) \<and> tamaSleeping u' = tamaSleeping (ui w)
      \<and> sleepStep u' = sleepStep (ui w)"
    using 2 by (simp add: sameCore_def smoothStep_def)
  have "flt (curLoad u') (Fin 0.22)"
    using assms by (simp add: 1 sleepMachine_curLoad)
  then show ?thesis
    using sleepMachine_low [of u' "now e" "nowWake e" "lastDataMs w"] by (simp add: 1 3)
qed

lemma animate_high:
  assumes "\<not> flt (curLoad (ui (animate e w))) (Fin 0.22)"
  shows "lowLoadSince (ui (animate e w)) = 0 \<and> sleepStep (ui (animate e w)) = 0
    \<and> tamaSleeping (ui (animate e w)) = (tamaSleeping (ui w) \<and> nowWake e - lastDataMs w > 4000)"
proof -
  obtain u' where 1: "ui (animate e w) = sleepMachine (now e) (nowWake e) (lastDataMs w) u'"
    and 2: "sameCore u' (smoothStep (ui w))"
    using animate_shape by blast
  have 3: "lowLoadSince u' = lowLoadSince (ui w) \<and> tamaSleeping u' = tamaSleeping (ui w)
      \<and> sleepStep u' = sleepStep (ui w)"
    using 2 by (simp add: sameCore_def smoothStep_def)
  have "\<not> flt (curLoad u') (Fin 0.22)"
    using assms by (simp add: 1 sleepMachine_curLoad)
  then show ?thesis
    using sleepMachine_high [of u' "now e" "nowWake e" "lastDataMs w"] by (simp add: 1 3)
qed

lemma loop_curLoad_anim:
  assumes "animates lib e w"
  shows "curLoad (ui (loop lib e w)) = curLoad (ui (animate (tick e)
      ((staleCheck e (drainSerial lib (serialIn e) w)) \<lparr> lastAnim := tAnim e \<rparr>)))"
  by (simp add: loop_anim [OF assms] curLoad_def render_frame)

lemma staleCheck_sleep:
  "tamaSleeping (ui (staleCheck e w)) = (tamaSleeping (ui w) \<or> tStale e - lastDataMs w > 4000)
   \<and> lowLoadSince (ui (staleCheck e w)) = lowLoadSince (ui w)
   \<and> lastDataMs (staleCheck e w) = lastDataMs w"
  by (simp add: staleCheck_def)

lemma loop_low:
  assumes "animates lib e w" "flt (curLoad (ui (loop lib e w))) (Fin 0.22)"
  shows "lowLoadSince (ui (loop lib e w))
           = (if lowLoadSince (ui w) = 0 then now (tick e) else lowLoadSince (ui w))
    \<and> tamaSleeping (ui (loop lib e w))
        = (tamaSleeping (ui w) \<or> tStale e - lastDataMs (drainSerial lib (serialIn e) w) > 4000
           \<or> now (tick e) - (if lowLoadSince (ui w) = 0 then now (tick e) else lowLoadSince (ui w)) > 9000)"
proof -
  define w1 where "w1 = drainSerial lib (serialIn e) w"
  define w3 where "w3 = (staleCheck e w1) \<lparr> lastAnim := tAnim e \<rparr>"
  have f: "tamaSleeping (ui w1) = tamaSleeping (ui w) \<and> lowLoadSince (ui w1) = lowLoadSince (ui w)"
    using drainSerial_frame [of lib "serialIn e" w] by (simp add: w1_def sameAnim_def)
  have s: "tamaSleeping (ui w3) = (tamaSleeping (ui w) \<or> tStale e - lastDataMs w1 > 4000)
      \<and> lowLoadSince (ui w3) = lowLoadSince (ui w)"
    using staleCheck_sleep [of e w1] f by (simp add: w3_def)
  have l: "loop lib e w = render e (animate (tick e) w3)"
    using loop_anim [OF assms(1)] by (simp add: w1_def w3_def)
  have c: "flt (curLoad (ui (animate (tick e) w3))) (Fin 0.22)"
    using assms(2) loop_curLoad_anim [OF assms(1)] by (simp add: w1_def w3_def)
  show ?thesis
    using animate_low [OF c] s by (simp add: l render_frame w1_def [symmetric])
qed

lemma loop_high:
  assumes "animates lib e w" "\<not> flt (curLoad (ui (loop lib e w))) (Fin 0.22)"
  shows "lowLoadSince (ui (loop lib e w)) = 0
    \<and> tamaSleeping (ui (loop lib e w))
        = ((tamaSleeping (ui w) \<or> tStale e - lastDataMs (drainSerial lib (serialIn e) w) > 4000)
           \<and> nowWake (tick e) - lastDataMs (drainSerial lib (serialIn e) w) > 4000)"
proof -
  define w1 where "w1 = drainSerial lib (serialIn e) w"
  define w3 where "w3 = (staleCheck e w1) \<lparr> lastAnim := tAnim e \<rparr>"
  have f: "tamaSleeping (ui w1) = tamaSleeping (ui w) \<and> lowLoadSince (ui w1) = lowLoadSince (ui w)"
    using drainSerial_frame [of lib "serialIn e" w] by (simp add: w1_def sameAnim_def)
  have s: "tamaSleeping (ui w3) = (tamaSleeping (ui w) \<or> tStale e - lastDataMs w1 > 4000)
      \<and> lowLoadSince (ui w3) = lowLoadSince (ui w) \<and> lastDataMs w3 = lastDataMs w1"
    using staleCheck_sleep [of e w1] f by (simp add: w3_def)
  have l: "loop lib e w = render e (animate (tick e) w3)"
    using loop_anim [OF assms(1)] by (simp add: w1_def w3_def)
  have c: "\<not> flt (curLoad (ui (animate (tick e) w3))) (Fin 0.22)"
    using assms(2) loop_curLoad_anim [OF assms(1)] by (simp add: w1_def w3_def)
  show ?thesis
    using animate_high [OF c] s by (simp add: l render_frame w1_def [symmetric])
qed

lemma loop_idle:
  assumes "\<not> animates lib e w"
  shows "lowLoadSince (ui (loop lib e w)) = lowLoadSince (ui w)
    \<and> tamaSleeping (ui (loop lib e w))
        = (tamaSleeping (ui w) \<or> (lastDataMs (drainSerial lib (serialIn e) w) \<noteq> 0
             \<and> tStale e - lastDataMs (drainSerial lib (serialIn e) w) > 4000))"
proof -
  define w1 where "w1 = drainSerial lib (serialIn e) w"
  have f: "tamaSleeping (ui w1) = tamaSleeping (ui w) \<and> lowLoadSince (ui w1) = lowLoadSince (ui w)"
    using drainSerial_frame [of lib "serialIn e" w] by (simp add: w1_def sameAnim_def)
  have la: "lastAnim (staleCheck e w1) = lastAnim w1"
    by (simp add: staleCheck_def)
  show ?thesis
  proof (cases "lastDataMs w1 = 0")
    case True
    then have "loop lib e w = paintWaiting e w1"
      by (simp add: loop_def Let_def w1_def)
    then show ?thesis using f True by (simp add: paintWaiting_ui w1_def [symmetric])
  next
    case False
    then have "tGate e - lastAnim w1 < 60"
      using assms by (simp add: animates_def w1_def)
    then have "loop lib e w = staleCheck e w1"
      using False by (simp add: loop_def Let_def w1_def [symmetric] la)
    then show ?thesis using f False staleCheck_sleep [of e w1] by (simp add: w1_def [symmetric])
  qed
qed

lemma loops_Cons: "loops lib (e # es) w = loops lib es (loop lib e w)"
  by (simp add: loops_def)

lemma loops_snoc: "loops lib (es @ [e]) w = loop lib e (loops lib es w)"
  by (simp add: loops_def)

lemma lowLoadRun_keeps_since:
  assumes "lowLoadRun lib es w" "lowLoadSince (ui w) \<noteq> 0"
  shows "lowLoadSince (ui (loops lib es w)) = lowLoadSince (ui w)"
  using assms
proof (induction es arbitrary: w)
  case Nil
  then show ?case by (simp add: loops_def)
next
  case (Cons e es)
  have k: "lowLoadSince (ui (loop lib e w)) = lowLoadSince (ui w)"
  proof (cases "animates lib e w")
    case True
    then have "flt (curLoad (ui (loop lib e w))) (Fin 0.22)" using Cons.prems(1) by simp
    then show ?thesis using loop_low [OF True] Cons.prems(2) by simp
  next
    case False
    then show ?thesis using loop_idle by simp
  qed
  have "lowLoadSince (ui (loops lib es (loop lib e w))) = lowLoadSince (ui (loop lib e w))"
    using Cons.IH [of "loop lib e w"] Cons.prems k by simp
  then show ?case by (simp add: loops_Cons k)
qed

lemma low_load_sleep:
  assumes "animates lib e0 w" "flt (curLoad (ui (loop lib e0 w))) (Fin 0.22)"
    and "lowLoadSince (ui w) = 0" "now (tick e0) \<noteq> 0"
    and "lowLoadRun lib es (loop lib e0 w)"
    and "animates lib en (loops lib es (loop lib e0 w))"
    and "flt (curLoad (ui (loop lib en (loops lib es (loop lib e0 w))))) (Fin 0.22)"
    and "now (tick en) - now (tick e0) > 9000"
  shows "tamaSleeping (ui (loops lib (e0 # es @ [en]) w))"
proof -
  define w1 where "w1 = loop lib e0 w"
  define w2 where "w2 = loops lib es w1"
  have 1: "lowLoadSince (ui w1) = now (tick e0)"
    using loop_low [OF assms(1,2)] assms(3) by (simp add: w1_def)
  have 2: "lowLoadSince (ui w2) = now (tick e0)"
    using lowLoadRun_keeps_since [of lib es w1] assms(4,5) 1 by (simp add: w1_def w2_def)
  have 3: "tamaSleeping (ui (loop lib en w2))"
    using loop_low [of lib en w2] assms(6,7,8) 2 assms(4) by (simp add: w1_def w2_def)
  have "loops lib (e0 # es @ [en]) w = loop lib en w2"
    by (simp add: loops_Cons loops_snoc w1_def w2_def)
  then show ?thesis using 3 by simp
qed

lemma stale_sleep:
  assumes "lastDataMs (drainSerial lib (serialIn e) w) \<noteq> 0"
    and "tStale e - lastDataMs (drainSerial lib (serialIn e) w) > 4000"
    and "nowWake (tick e) - lastDataMs (drainSerial lib (serialIn e) w) > 4000"
  shows "tamaSleeping (ui (loop lib e w))"
proof (cases "animates lib e w")
  case True
  show ?thesis
  proof (cases "flt (curLoad (ui (loop lib e w))) (Fin 0.22)")
    case True
    then show ?thesis using loop_low [OF \<open>animates lib e w\<close>] assms by simp
  next
    case False
    then show ?thesis using loop_high [OF \<open>animates lib e w\<close>] assms by simp
  qed
next
  case False
  then show ?thesis using loop_idle assms by simp
qed

subsection \<open>Running the loop on the empty message\<close>

lemma trim_braces: "trim ''{}'' = ''{}''"
  by (simp add: trim_def isspace_def)

lemma decode_ok_snd:
  "deserializeJson lib l = Inr doc \<Longrightarrow> fst (updateFromJsonLine lib l w)"
  by (simp add: decode_ok)

lemma serialByte_newline:
  assumes "c = CHR 0x0A \<or> c = CHR 0x0D" "trim (line w) \<noteq> []"
  shows "serialByte lib w (c, t)
     = (snd (updateFromJsonLine lib (trim (line w)) (w \<lparr> line := trim (line w) \<rparr>)))
         \<lparr> lastDataMs := (if fst (updateFromJsonLine lib (trim (line w)) (w \<lparr> line := trim (line w) \<rparr>))
               then t
               else lastDataMs (snd (updateFromJsonLine lib (trim (line w)) (w \<lparr> line := trim (line w) \<rparr>)))),
            line := [] \<rparr>"
  using assms
  by (cases "updateFromJsonLine lib (trim (line w)) (w \<lparr> line := trim (line w) \<rparr>)")
     (auto simp: serialByte_def Let_def)

lemma drain_braces:
  assumes "deserializeJson lib ''{}'' = Inr doc" "line w = []"
  shows "drainSerial lib (lineAt ''{}'' t) w
     = (snd (updateFromJsonLine lib ''{}'' (w \<lparr> line := ''{}'' \<rparr>))) \<lparr> lastDataMs := t, line := [] \<rparr>"
proof -
  have 1: "serialByte lib w (CHR ''{'', t) = w \<lparr> line := ''{'' \<rparr>"
    using assms(2) by (simp add: serialByte_def Let_def)
  have 2: "serialByte lib (w \<lparr> line := ''{'' \<rparr>) (CHR ''}'', t) = w \<lparr> line := ''{}'' \<rparr>"
    by (simp add: serialByte_def Let_def)
  have 3: "serialByte lib (w \<lparr> line := ''{}'' \<rparr>) (CHR 0x0A, t)
      = (snd (updateFromJsonLine lib ''{}'' (w \<lparr> line := ''{}'' \<rparr>))) \<lparr> lastDataMs := t, line := [] \<rparr>"
    using decode_ok_snd [OF assms(1), of "w \<lparr> line := ''{}'' \<rparr>"]
      serialByte_newline [of "CHR 0x0A" "w \<lparr> line := ''{}'' \<rparr>" lib t]
    by (simp add: trim_braces)
  show ?thesis
    by (simp add: drainSerial_def lineAt_def bytesAt_def 1 2 3)
qed

lemma readValues_empty: "dat (readValues lib (JObject []) w) = dat w"
  by (simp add: readValues_def Let_def)

lemma updateTargets_absent:
  assumes "\<not> fge (cpu d) (Fin 0)" "ram d \<le> 0"
  shows "tgtCpu (updateTargets d u) = tgtCpu u \<and> tgtRamRatio (updateTargets d u) = tgtRamRatio u"
  using assms by (simp add: updateTargets_cpu_ram)

lemma smoothClamp_zero: "0 \<le> hi \<Longrightarrow> smoothClamp (Fin 0) (Fin hi) (Fin 0) (Fin 0) = Fin 0"
  by (simp add: smoothClamp_def Let_def fsub_def fgt_def ovf_def FLT_OVF_def)

lemma render_world:
  "line (render e w) = line w \<and> lastAnim (render e w) = lastAnim w"
  by (simp add: render_def)

lemma quiet_drain:
  assumes "quiet w"
  shows "lastDataMs (drainSerial libEmptyObj (lineAt ''{}'' t) w) = t
    \<and> lastAnim (drainSerial libEmptyObj (lineAt ''{}'' t) w) = lastAnim w
    \<and> quiet (drainSerial libEmptyObj (lineAt ''{}'' t) w)"
proof -
  have p: "deserializeJson libEmptyObj ''{}'' = Inr (JObject [])"
    by (simp add: libEmptyObj_def libConst_def)
  define v where "v = w \<lparr> line := ''{}'' \<rparr>"
  define r where "r = snd (updateFromJsonLine libEmptyObj ''{}'' v)"
  have d: "drainSerial libEmptyObj (lineAt ''{}'' t) w = r \<lparr> lastDataMs := t, line := [] \<rparr>"
    using drain_braces [OF p, of w t] assms by (simp add: quiet_def r_def v_def)
  have f: "sameAnim (ui r) (ui v) \<and> lastAnim r = lastAnim v"
    using decode_frame [of libEmptyObj "''{}''" v] by (simp add: r_def)
  have dr: "dat r = dat w"
    by (simp add: r_def decode_ok [OF p] readValues_empty v_def)
  have "ui r = (updateTicker (dat w) (updateTargets (dat w) (ui w))) \<lparr> hasData := True \<rparr>"
    by (simp add: r_def decode_ok [OF p] readValues_empty v_def)
  then have tg: "tgtCpu (ui r) = tgtCpu (ui w) \<and> tgtRamRatio (ui r) = tgtRamRatio (ui w)"
    using updateTargets_absent [of "dat w" "ui w"] assms
    by (simp add: updateTicker_shape quiet_def)
  show ?thesis
    using assms f dr tg by (simp add: d quiet_def sameAnim_def v_def)
qed

lemma quiet_step:
  assumes "quiet w" "t \<noteq> 0" "\<not> t - lastAnim w < 60"
  shows "animates libEmptyObj (envq t) w
    \<and> lastDataMs (drainSerial libEmptyObj (serialIn (envq t)) w) = t
    \<and> quiet (loop libEmptyObj (envq t) w)
    \<and> lastAnim (loop libEmptyObj (envq t) w) = t
    \<and> curLoad (ui (loop libEmptyObj (envq t) w)) = Fin 0"
proof -
  define w1 where "w1 = drainSerial libEmptyObj (lineAt ''{}'' t) w"
  have s: "serialIn (envq t) = lineAt ''{}'' t" "tGate (envq t) = t" "tAnim (envq t) = t"
    by (simp_all add: envq_def envAt_def)
  have q: "lastDataMs w1 = t \<and> lastAnim w1 = lastAnim w \<and> quiet w1"
    using quiet_drain [OF assms(1)] by (simp add: w1_def)
  have a: "animates libEmptyObj (envq t) w"
    using q assms by (simp add: animates_def s w1_def [symmetric])
  define w3 where "w3 = (staleCheck (envq t) w1) \<lparr> lastAnim := t \<rparr>"
  have q3: "quiet w3 \<and> lastAnim w3 = t"
    using q by (simp add: w3_def quiet_def staleCheck_def)
  have l: "loop libEmptyObj (envq t) w = render (envq t) (animate (tick (envq t)) w3)"
    using loop_anim [OF a] by (simp add: s w1_def w3_def)
  have g: "curCpu (ui (animate (tick (envq t)) w3)) = Fin 0
      \<and> curRamRatio (ui (animate (tick (envq t)) w3)) = Fin 0
      \<and> tgtCpu (ui (animate (tick (envq t)) w3)) = Fin 0
      \<and> tgtRamRatio (ui (animate (tick (envq t)) w3)) = Fin 0"
    using q3 by (simp add: animate_gauges quiet_def smoothClamp_zero)
  have "quiet (loop libEmptyObj (envq t) w) \<and> lastAnim (loop libEmptyObj (envq t) w) = t
      \<and> curLoad (ui (loop libEmptyObj (envq t) w)) = Fin 0"
    using g q3 by (simp add: l quiet_def render_frame render_world animate_frame curLoad_def ovf_def FLT_OVF_def)
  then show ?thesis using a q by (simp add: s w1_def)
qed

lemma quiet_world0: "quiet world0 \<and> lastAnim world0 = 0 \<and> lowLoadSince (ui world0) = 0
    \<and> \<not> tamaSleeping (ui world0)"
  by (simp add: quiet_def world0_def ui0_def data0_def fge_def)

lemma envq_now: "now (tick (envq t)) = t \<and> tStale (envq t) = t \<and> nowWake (tick (envq t)) = t"
  by (simp add: envq_def envAt_def tickAt_def)

lemma first_quiet_tick:
  "animates libEmptyObj (envq 1000) world0
   \<and> flt (curLoad (ui (loop libEmptyObj (envq 1000) world0))) (Fin 0.22)
   \<and> quiet (loop libEmptyObj (envq 1000) world0)
   \<and> lastAnim (loop libEmptyObj (envq 1000) world0) = 1000
   \<and> lowLoadSince (ui (loop libEmptyObj (envq 1000) world0)) = 1000
   \<and> \<not> tamaSleeping (ui (loop libEmptyObj (envq 1000) world0))"
proof -
  have s: "animates libEmptyObj (envq 1000) world0
    \<and> lastDataMs (drainSerial libEmptyObj (serialIn (envq 1000)) world0) = 1000
    \<and> quiet (loop libEmptyObj (envq 1000) world0)
    \<and> lastAnim (loop libEmptyObj (envq 1000) world0) = 1000
    \<and> curLoad (ui (loop libEmptyObj (envq 1000) world0)) = Fin 0"
    using quiet_step [of world0 1000] quiet_world0 by simp
  then have "flt (curLoad (ui (loop libEmptyObj (envq 1000) world0))) (Fin 0.22)" by simp
  then show ?thesis
    using s loop_low [of libEmptyObj "envq 1000" world0] quiet_world0 by (simp add: envq_now)
qed

subsection \<open>Decoding a complete line\<close>

lemma getMember_absent: "\<not> containsKey doc k \<Longrightarrow> getMember doc k = JNull"
  by (cases doc) simp_all

lemma drain_chars:
  assumes "\<forall>c\<in>set s. c \<noteq> CHR 0x0A \<and> c \<noteq> CHR 0x0D" "length (line w) + length s \<le> 1536"
  shows "drainSerial lib (bytesAt s t) w = w \<lparr> line := line w @ s \<rparr>"
  using assms
proof (induction s arbitrary: w)
  case Nil
  then show ?case by (simp add: drainSerial_def bytesAt_def)
next
  case (Cons c s)
  have 1: "serialByte lib w (c, t) = w \<lparr> line := line w @ [c] \<rparr>"
    using Cons.prems by (simp add: serialByte_def Let_def)
  have 2: "drainSerial lib (bytesAt (c # s) t) w = drainSerial lib (bytesAt s t) (serialByte lib w (c, t))"
    by (simp add: drainSerial_def bytesAt_def)
  have "drainSerial lib (bytesAt s t) (w \<lparr> line := line w @ [c] \<rparr>)
      = (w \<lparr> line := line w @ [c] \<rparr>) \<lparr> line := line (w \<lparr> line := line w @ [c] \<rparr>) @ s \<rparr>"
    using Cons.IH [of "w \<lparr> line := line w @ [c] \<rparr>"] Cons.prems by simp
  then show ?case by (simp add: 1 2)
qed

lemma drain_line:
  assumes "deserializeJson lib s = Inr doc" "line w = []"
    and "\<forall>c\<in>set s. c \<noteq> CHR 0x0A \<and> c \<noteq> CHR 0x0D" "length s \<le> 1536"
    and "trim s = s" "s \<noteq> []"
  shows "drainSerial lib (lineAt s t) w
     = (snd (updateFromJsonLine lib s (w \<lparr> line := s \<rparr>))) \<lparr> lastDataMs := t, line := [] \<rparr>"
proof -
  have 1: "drainSerial lib (bytesAt s t) w = w \<lparr> line := s \<rparr>"
    using drain_chars [of s w lib t] assms by simp
  have 2: "drainSerial lib (lineAt s t) w = serialByte lib (drainSerial lib (bytesAt s t) w) (CHR 0x0A, t)"
    by (simp add: drainSerial_def lineAt_def bytesAt_def)
  have 3: "serialByte lib (w \<lparr> line := s \<rparr>) (CHR 0x0A, t)
      = (snd (updateFromJsonLine lib s (w \<lparr> line := s \<rparr>))) \<lparr> lastDataMs := t, line := [] \<rparr>"
    using decode_ok_snd [OF assms(1), of "w \<lparr> line := s \<rparr>"]
      serialByte_newline [of "CHR 0x0A" "w \<lparr> line := s \<rparr>" lib t] assms(5,6)
    by simp
  show ?thesis by (simp add: 1 2 3)
qed

lemma loop_dat: "dat (loop lib e w) = dat (drainSerial lib (serialIn e) w)"
  by (simp add: loop_def Let_def paintWaiting_ui staleCheck_def render_frame animate_frame)

lemma decode_dat:
  assumes "deserializeJson lib l = Inr doc"
  shows "dat (snd (updateFromJsonLine lib l w)) = dat (readValues lib doc w)
    \<and> appName (snd (updateFromJsonLine lib l w)) = appName (readValues lib doc w)"
  by (simp add: decode_ok [OF assms])

lemma lineHalf_ok:
  "(\<forall>c\<in>set lineHalf. c \<noteq> CHR 0x0A \<and> c \<noteq> CHR 0x0D) \<and> length lineHalf \<le> 1536
   \<and> trim lineHalf = lineHalf \<and> lineHalf \<noteq> []"
  by (simp add: lineHalf_def trim_def isspace_def)

lemma loop_decoded_dat:
  assumes "deserializeJson lib s = Inr doc" "line w = []"
    and "(\<forall>c\<in>set s. c \<noteq> CHR 0x0A \<and> c \<noteq> CHR 0x0D) \<and> length s \<le> 1536 \<and> trim s = s \<and> s \<noteq> []"
  shows "dat (loop lib (envAt (lineAt s t) t) w) = dat (readValues lib doc (w \<lparr> line := s \<rparr>))"
proof -
  have "drainSerial lib (lineAt s t) w
     = (snd (updateFromJsonLine lib s (w \<lparr> line := s \<rparr>))) \<lparr> lastDataMs := t, line := [] \<rparr>"
    using drain_line [of lib s doc w t] assms by simp
  then show ?thesis
    by (simp add: loop_dat envAt_def decode_ok [OF assms(1)])
qed

subsection \<open>The ticker\<close>

lemma tickerBody_fields:
  "tickerBody d = (if spec_tickerFields d = [] then '' Smart Monitor'' else spec_tickerFields d)"
  by (simp add: tickerBody_def Let_def spec_tickerFields_def spec_segTemp_def spec_segCpu_def
      spec_segRam_def spec_segDisk_def spec_segUptime_def)

lemma decode_ticker:
  assumes "deserializeJson lib l = Inr doc"
  shows "tickerText (ui (snd (updateFromJsonLine lib l w)))
      = tickerBody (dat (snd (updateFromJsonLine lib l w))) @ ''   ''
    \<and> tickerW (ui (snd (updateFromJsonLine lib l w)))
      = max 1 (textWidth (tickerBody (dat (snd (updateFromJsonLine lib l w))) @ ''   '') 1)"
  by (simp add: decode_ok [OF assms] updateTicker_shape)

lemma docFull_values:
  "dat (readValues lib docFull world0)
     = dataFull"
  by (simp add: readValues_def Let_def docFull_def world0_def data0_def dataFull_def
      LONG_MIN_def LONG_MAX_def ovf_def FLT_OVF_def)

lemma fields_full:
  "spec_tickerFields dataFull
    = '' 21C  CPU 55%  RAM 3906MB  DISK 50GB  UPT 1d 2h3m''"
  by (simp add: spec_tickerFields_def spec_segTemp_def spec_segCpu_def
      spec_segRam_def spec_segDisk_def spec_segUptime_def data0_def dataFull_def trunc_def fge_def
      fmtDisk_def fmtUptime_def c_div_def c_mod_def Let_def String_of_int_def dec_nat.simps digit_char_def)

subsection \<open>The first message of a run\<close>

lemma loop_line_gauges:
  assumes "deserializeJson lib s = Inr doc" "line w = []"
    and "(\<forall>c\<in>set s. c \<noteq> CHR 0x0A \<and> c \<noteq> CHR 0x0D) \<and> length s \<le> 1536 \<and> trim s = s \<and> s \<noteq> []"
    and "t \<noteq> 0" "\<not> t - lastAnim w < 60"
  shows "animates lib (envAt (lineAt s t) t) w
    \<and> lastDataMs (drainSerial lib (serialIn (envAt (lineAt s t) t)) w) = t
    \<and> curCpu (ui (loop lib (envAt (lineAt s t) t) w))
        = smoothClamp (Fin 0) (Fin 100) (tgtCpu (updateTargets (dat (readValues lib doc (w \<lparr> line := s \<rparr>))) (ui w)))
            (curCpu (ui w))
    \<and> curRamRatio (ui (loop lib (envAt (lineAt s t) t) w))
        = smoothClamp (Fin 0) (Fin 1) (tgtRamRatio (updateTargets (dat (readValues lib doc (w \<lparr> line := s \<rparr>))) (ui w)))
            (curRamRatio (ui w))
    \<and> curNetRatio (ui (loop lib (envAt (lineAt s t) t) w))
        = smoothClamp (Fin 0) (Fin 1) (tgtNetRatio (updateTargets (dat (readValues lib doc (w \<lparr> line := s \<rparr>))) (ui w)))
            (curNetRatio (ui w))"
proof -
  define e where "e = envAt (lineAt s t) t"
  define v where "v = w \<lparr> line := s \<rparr>"
  define w1 where "w1 = drainSerial lib (lineAt s t) w"
  have se: "serialIn e = lineAt s t" "tGate e = t" "tAnim e = t"
    by (simp_all add: e_def envAt_def)
  have d: "w1 = (snd (updateFromJsonLine lib s v)) \<lparr> lastDataMs := t, line := [] \<rparr>"
    using drain_line [of lib s doc w t] assms by (simp add: w1_def v_def)
  have f: "sameAnim (ui w1) (ui w) \<and> lastAnim w1 = lastAnim w"
    using drainSerial_frame [of lib "lineAt s t" w] by (simp add: w1_def)
  have l: "lastDataMs w1 = t"
    by (simp add: d)
  have a: "animates lib e w"
    using l f assms(4,5) by (simp add: animates_def se w1_def [symmetric])
  have u: "ui w1 = (updateTicker (dat (readValues lib doc v))
          (updateTargets (dat (readValues lib doc v)) (ui w))) \<lparr> hasData := True \<rparr>"
    by (simp add: d decode_ok [OF assms(1)] v_def)
  have tg: "tgtCpu (ui w1) = tgtCpu (updateTargets (dat (readValues lib doc v)) (ui w))
      \<and> tgtRamRatio (ui w1) = tgtRamRatio (updateTargets (dat (readValues lib doc v)) (ui w))
      \<and> tgtNetRatio (ui w1) = tgtNetRatio (updateTargets (dat (readValues lib doc v)) (ui w))"
    by (simp add: u updateTicker_shape)
  define w3 where "w3 = (staleCheck e w1) \<lparr> lastAnim := tAnim e \<rparr>"
  have g3: "tgtCpu (ui w3) = tgtCpu (ui w1) \<and> tgtRamRatio (ui w3) = tgtRamRatio (ui w1)
      \<and> tgtNetRatio (ui w3) = tgtNetRatio (ui w1)
      \<and> curCpu (ui w3) = curCpu (ui w) \<and> curRamRatio (ui w3) = curRamRatio (ui w)
      \<and> curNetRatio (ui w3) = curNetRatio (ui w)"
    using f by (simp add: w3_def staleCheck_def sameAnim_def)
  have lp: "loop lib e w = render e (animate (tick e) w3)"
    using loop_anim [OF a] by (simp add: se w1_def w3_def)
  have "curCpu (ui (loop lib e w)) = smoothClamp (Fin 0) (Fin 100) (tgtCpu (ui w1)) (curCpu (ui w))
      \<and> curRamRatio (ui (loop lib e w)) = smoothClamp (Fin 0) (Fin 1) (tgtRamRatio (ui w1)) (curRamRatio (ui w))
      \<and> curNetRatio (ui (loop lib e w)) = smoothClamp (Fin 0) (Fin 1) (tgtNetRatio (ui w1)) (curNetRatio (ui w))"
    by (simp add: lp render_frame animate_gauges g3)
  then show ?thesis
    using a l by (simp add: tg e_def [symmetric] v_def [symmetric] se w1_def [symmetric])
qed

lemma lineFullLoad_ok:
  "(\<forall>c\<in>set lineFullLoad. c \<noteq> CHR 0x0A \<and> c \<noteq> CHR 0x0D) \<and> length lineFullLoad \<le> 1536
   \<and> trim lineFullLoad = lineFullLoad \<and> lineFullLoad \<noteq> []"
  by (simp add: lineFullLoad_def trim_def isspace_def)

lemma docFullLoad_values:
  "dat (readValues lib docFullLoad (world0 \<lparr> line := s \<rparr>)) = dataFullLoad"
  by (simp add: readValues_def Let_def docFullLoad_def world0_def data0_def dataFullLoad_def
      LONG_MIN_def LONG_MAX_def ovf_def FLT_OVF_def)

lemma moodLoad_values:
  "moodLoad dataFullLoad = Fin 1 \<and> moodLoad dataLight = Fin 0.1 \<and> moodLoad dataHalf = Fin 0.525
   \<and> moodLoad data0 = Fin 0"
  by (simp add: moodLoad_def Let_def dataFullLoad_def dataLight_def dataHalf_def data0_def
      fge_def of_long_def ovf_def FLT_OVF_def)

lemma lineBurst_ok:
  "(\<forall>c\<in>set lineBurst. c \<noteq> CHR 0x0A \<and> c \<noteq> CHR 0x0D) \<and> length lineBurst \<le> 1536
   \<and> trim lineBurst = lineBurst \<and> lineBurst \<noteq> []"
  by (simp add: lineBurst_def trim_def isspace_def)

lemma docBurst_values:
  "dat w = data0 \<Longrightarrow> dat (readValues lib docBurst w) = dataBurst"
  by (simp add: readValues_def Let_def docBurst_def data0_def dataBurst_def ovf_def FLT_OVF_def)

lemma burst_targets:
  "tgtNetRatio (updateTargets dataBurst (ui world0)) = NaN
   \<and> netMaxKBs (updateTargets dataBurst (ui world0)) = PInf"
  by (simp add: updateTargets_def netTarget_def Let_def dataBurst_def data0_def world0_def ui0_def
      fge_def fgt_def fmax_def ovf_def FLT_OVF_def)

lemma loop_net_nan:
  assumes "curNetRatio (ui w) = NaN"
  shows "curNetRatio (ui (loop lib e w)) = NaN"
proof -
  define w1 where "w1 = drainSerial lib (serialIn e) w"
  have 1: "curNetRatio (ui w1) = NaN"
    using assms drainSerial_frame [of lib "serialIn e" w] by (simp add: w1_def sameAnim_def)
  have 2: "curNetRatio (ui (staleCheck e w1)) = NaN"
    using 1 by (simp add: staleCheck_def)
  have 3: "curNetRatio (ui (render e (animate (tick e) ((staleCheck e w1) \<lparr> lastAnim := tAnim e \<rparr>)))) = NaN"
    using 2 by (simp add: render_frame animate_gauges smoothClamp_def Let_def fsub_def fgt_def)
  have 4: "curNetRatio (ui (paintWaiting e w1)) = NaN"
    using 1 by (simp add: paintWaiting_ui)
  show ?thesis
    using 2 3 4 by (simp add: loop_def Let_def w1_def [symmetric])
qed

lemma loops_net_nan: "curNetRatio (ui w) = NaN \<Longrightarrow> curNetRatio (ui (loops lib es w)) = NaN"
proof (induction es arbitrary: w)
  case Nil
  then show ?case by (simp add: loops_def)
next
  case (Cons e es)
  have "loops lib (e # es) w = loops lib es (loop lib e w)"
    by (simp add: loops_def)
  then show ?case using Cons loop_net_nan by simp
qed

lemma loop_line_stamps:
  assumes "deserializeJson lib s = Inr doc" "line w = []"
    and "(\<forall>c\<in>set s. c \<noteq> CHR 0x0A \<and> c \<noteq> CHR 0x0D) \<and> length s \<le> 1536 \<and> trim s = s \<and> s \<noteq> []"
    and "t \<noteq> 0" "\<not> t - lastAnim w < 60"
  shows "lastAnim (loop lib (envAt (lineAt s t) t) w) = t
    \<and> lastDataMs (loop lib (envAt (lineAt s t) t) w) = t"
proof -
  define e where "e = envAt (lineAt s t) t"
  have a: "animates lib e w \<and> lastDataMs (drainSerial lib (serialIn e) w) = t"
    using loop_line_gauges [OF assms] by (simp add: e_def)
  have se: "tAnim e = t"
    by (simp add: e_def envAt_def)
  have "loop lib e w = render e (animate (tick e)
      ((staleCheck e (drainSerial lib (serialIn e) w)) \<lparr> lastAnim := tAnim e \<rparr>))"
    using loop_anim a by simp
  then show ?thesis
    using a by (simp add: e_def [symmetric] render_world render_frame animate_frame staleCheck_def se)
qed

subsection \<open>Animation steps 60 ms apart\<close>

lemma lowTickRun_lowLoadRun: "lowTickRun lib es w \<Longrightarrow> lowLoadRun lib es w"
  by (induction es arbitrary: w) simp_all

lemma quiet_run:
  assumes "quiet w" "\<not> tamaSleeping (ui w)" "lowLoadSince (ui w) = t0" "t0 \<noteq> 0"
    and "stepsOk (lastAnim w) t0 ts"
  shows "lowTickRun libEmptyObj (map envq ts) w
    \<and> quiet (loops libEmptyObj (map envq ts) w)
    \<and> \<not> tamaSleeping (ui (loops libEmptyObj (map envq ts) w))
    \<and> lowLoadSince (ui (loops libEmptyObj (map envq ts) w)) = t0
    \<and> lastAnim (loops libEmptyObj (map envq ts) w) = last (lastAnim w # ts)"
  using assms
proof (induction ts arbitrary: w)
  case Nil
  then show ?case by (simp add: loops_def)
next
  case (Cons t ts)
  define v where "v = loop libEmptyObj (envq t) w"
  have ok: "t \<noteq> 0" "\<not> t - lastAnim w < 60" "\<not> 9000 < t - t0" "stepsOk t t0 ts"
    using Cons.prems(5) by simp_all
  have s: "animates libEmptyObj (envq t) w
    \<and> lastDataMs (drainSerial libEmptyObj (serialIn (envq t)) w) = t
    \<and> quiet v \<and> lastAnim v = t \<and> curLoad (ui v) = Fin 0"
    using quiet_step [OF Cons.prems(1) ok(1) ok(2)] by (simp add: v_def)
  then have c: "flt (curLoad (ui (loop libEmptyObj (envq t) w))) (Fin 0.22)"
    by (simp add: v_def)
  have sl: "lowLoadSince (ui v) = t0 \<and> \<not> tamaSleeping (ui v)"
    using loop_low [of libEmptyObj "envq t" w] s c Cons.prems(2,3,4) ok(3)
    by (simp add: v_def [symmetric] envq_now)
  have ih: "lowTickRun libEmptyObj (map envq ts) v
    \<and> quiet (loops libEmptyObj (map envq ts) v)
    \<and> \<not> tamaSleeping (ui (loops libEmptyObj (map envq ts) v))
    \<and> lowLoadSince (ui (loops libEmptyObj (map envq ts) v)) = t0
    \<and> lastAnim (loops libEmptyObj (map envq ts) v) = last (lastAnim v # ts)"
    using Cons.IH [of v] s sl Cons.prems(4) ok(4) by simp
  show ?case
    using ih s c by (simp add: loops_Cons v_def [symmetric])
qed

lemma times_ok: "stepsOk 1000 1000 (timesFrom 1060 150)"
  by code_simp

lemma times_last: "last (1000 # timesFrom 1060 150) = 10000"
  by code_simp

section \<open>Parse failure\<close>

text \<open>
  C8. For a line the parser rejects, \<^verbatim>\<open>updateFromJsonLine\<close> returns \<^verbatim>\<open>false\<close> and the state
  after the call is the state before it with one more line on \<^verbatim>\<open>Serial\<close>: the snapshot,
  the targets, the network scale, the ticker, \<^verbatim>\<open>appName\<close> and the statics are untouched.
\<close>

theorem parse_failure_keeps_state:
  assumes "deserializeJson lib l = Inl err"
  shows "fst (updateFromJsonLine lib l w) = False
       \<and> snd (updateFromJsonLine lib l w)
           = w \<lparr> serialOut := serialOut w @ [''Erreur JSON: '' @ f_str err] \<rparr>
       \<and> dat (snd (updateFromJsonLine lib l w)) = dat w
       \<and> ui (snd (updateFromJsonLine lib l w)) = ui w
       \<and> appName (snd (updateFromJsonLine lib l w)) = appName w
       \<and> lastDataMs (snd (updateFromJsonLine lib l w)) = lastDataMs w"
  using assms by (simp add: updateFromJsonLine_def)

theorem parse_failure_keeps_state_witness:
  "deserializeJson (libConst (Inl InvalidInput)) ''{\"cpu\":'' = Inl InvalidInput
   \<and> updateFromJsonLine (libConst (Inl InvalidInput)) ''{\"cpu\":'' world0
     = (False, world0 \<lparr> serialOut := [''Erreur JSON: InvalidInput''] \<rparr>)"
  using parse_failure_keeps_state
    [of "libConst (Inl InvalidInput)" "''{\"cpu\":''" InvalidInput world0]
  by (simp add: libConst_def world0_def prod_eq_iff)


section \<open>Network auto-scale\<close>

text \<open>
  C5. The message \<^verbatim>\<open>{"net":{"rx":2e38,"tx":2e38}}\<close> carries two finite single-precision
  rates. Decoded in the initial state it is accepted and both rates are known (neither is
  NaN). Their sum is beyond the single-precision range, so \<^verbatim>\<open>total\<close> is +infinity on line
  162, the scale jumps to +infinity on line 163, the target of line 164 is
  infinity / infinity, which is NaN and so not in \<open>[0,1]\<close>, and the scale is still
  +infinity after the decay of line 165.
\<close>

theorem net_overflow_on_decode:
  "deserializeJson (libConst (Inr docBurst)) lineBurst = Inr docBurst
   \<and> fst (updateFromJsonLine (libConst (Inr docBurst)) lineBurst world0)
   \<and> net_rx (dat (snd (updateFromJsonLine (libConst (Inr docBurst)) lineBurst world0)))
       = Fin (2 * 10 ^ 38)
   \<and> net_tx (dat (snd (updateFromJsonLine (libConst (Inr docBurst)) lineBurst world0)))
       = Fin (2 * 10 ^ 38)
   \<and> fmax (Fin 0) (fadd (Fin (2 * 10 ^ 38)) (Fin (2 * 10 ^ 38))) = PInf
   \<and> netMaxKBs (ui world0) = Fin 1
   \<and> netMaxKBs (ui (snd (updateFromJsonLine (libConst (Inr docBurst)) lineBurst world0))) = PInf
   \<and> tgtNetRatio (ui (snd (updateFromJsonLine (libConst (Inr docBurst)) lineBurst world0))) = NaN
   \<and> \<not> fle (Fin 0) (tgtNetRatio (ui (snd (updateFromJsonLine (libConst (Inr docBurst)) lineBurst world0))))
   \<and> \<not> fle (tgtNetRatio (ui (snd (updateFromJsonLine (libConst (Inr docBurst)) lineBurst world0)))) (Fin 1)"
proof -
  have p: "deserializeJson (libConst (Inr docBurst)) lineBurst = Inr docBurst"
    by (simp add: libConst_def)
  have d: "dat (readValues (libConst (Inr docBurst)) docBurst world0) = dataBurst"
    by (simp add: docBurst_values world0_def)
  have r: "net_rx dataBurst = Fin (2 * 10 ^ 38) \<and> net_tx dataBurst = Fin (2 * 10 ^ 38)"
    by (simp add: dataBurst_def)
  have s: "fmax (Fin 0) (fadd (Fin (2 * 10 ^ 38)) (Fin (2 * 10 ^ 38))) = PInf"
    by (simp add: fmax_def fgt_def ovf_def FLT_OVF_def)
  have n: "netMaxKBs (ui world0) = Fin 1"
    by (simp add: world0_def ui0_def)
  have t: "tgtNetRatio (ui (snd (updateFromJsonLine (libConst (Inr docBurst)) lineBurst world0))) = NaN
      \<and> netMaxKBs (ui (snd (updateFromJsonLine (libConst (Inr docBurst)) lineBurst world0))) = PInf"
    using burst_targets by (simp add: decode_ok [OF p] d updateTicker_shape)
  have f: "fst (updateFromJsonLine (libConst (Inr docBurst)) lineBurst world0)"
    by (simp add: decode_ok [OF p])
  have v: "net_rx (dat (snd (updateFromJsonLine (libConst (Inr docBurst)) lineBurst world0)))
       = Fin (2 * 10 ^ 38)
    \<and> net_tx (dat (snd (updateFromJsonLine (libConst (Inr docBurst)) lineBurst world0)))
       = Fin (2 * 10 ^ 38)"
    using r by (simp only: decode_dat [OF p] d)
  from p f v s n t show ?thesis by simp
qed

section \<open>Displayed values\<close>

text \<open>
  C2. From the initial state, the call of \<^verbatim>\<open>loop\<close> at 1000 ms that receives the line
  \<^verbatim>\<open>{"net":{"rx":2e38,"tx":2e38}}\<close> decodes it and runs the animation step. The network
  target is NaN (infinity / infinity on line 164), so line 439 makes \<^verbatim>\<open>curNetRatio\<close> NaN,
  and both comparisons of line 440 are false on NaN: after the tick \<^verbatim>\<open>curNetRatio\<close> is
  neither at least 0 nor at most 1, while \<^verbatim>\<open>curCpu\<close> and \<^verbatim>\<open>curRamRatio\<close> are in their
  ranges. The value is still NaN after the animation steps at 1060 ms and 1120 ms.
\<close>

theorem net_overflow_current_ratio:
  "animates (libConst (Inr docBurst)) (envAt (lineAt lineBurst 1000) 1000) world0
   \<and> net_rx (dat (loop (libConst (Inr docBurst)) (envAt (lineAt lineBurst 1000) 1000) world0))
       = Fin (2 * 10 ^ 38)
   \<and> net_tx (dat (loop (libConst (Inr docBurst)) (envAt (lineAt lineBurst 1000) 1000) world0))
       = Fin (2 * 10 ^ 38)
   \<and> curNetRatio (ui (loop (libConst (Inr docBurst)) (envAt (lineAt lineBurst 1000) 1000) world0))
       = NaN
   \<and> \<not> fle (Fin 0)
        (curNetRatio (ui (loop (libConst (Inr docBurst)) (envAt (lineAt lineBurst 1000) 1000) world0)))
   \<and> \<not> fle (curNetRatio (ui (loop (libConst (Inr docBurst)) (envAt (lineAt lineBurst 1000) 1000) world0)))
        (Fin 1)
   \<and> cpuRamInRange (ui (loop (libConst (Inr docBurst)) (envAt (lineAt lineBurst 1000) 1000) world0))
   \<and> animates (libConst (Inr docBurst)) (envAt [] 1060)
        (loop (libConst (Inr docBurst)) (envAt (lineAt lineBurst 1000) 1000) world0)
   \<and> curNetRatio (ui (loops (libConst (Inr docBurst))
        [envAt (lineAt lineBurst 1000) 1000, envAt [] 1060, envAt [] 1120] world0)) = NaN"
proof -
  define lib where "lib = libConst (Inr docBurst)"
  define e where "e = envAt (lineAt lineBurst 1000) 1000"
  define wr where "wr = loop lib e world0"
  have p: "deserializeJson lib lineBurst = Inr docBurst"
    by (simp add: lib_def libConst_def)
  have l: "line world0 = [] \<and> lastAnim world0 = 0 \<and> curNetRatio (ui world0) = Fin 0"
    by (simp add: world0_def ui0_def)
  have dv: "dat (readValues lib docBurst (world0 \<lparr> line := lineBurst \<rparr>)) = dataBurst"
    by (simp add: docBurst_values world0_def)
  have g: "animates lib e world0 \<and> curNetRatio (ui wr) = NaN"
    using loop_line_gauges [OF p _ lineBurst_ok, of world0 1000] l
    by (simp add: e_def [symmetric] wr_def [symmetric] dv burst_targets smoothClamp_nan)
  have d: "dat wr = dataBurst"
    using loop_decoded_dat [OF p _ lineBurst_ok, of world0 1000] l
    by (simp add: wr_def e_def dv)
  have r: "net_rx (dat wr) = Fin (2 * 10 ^ 38) \<and> net_tx (dat wr) = Fin (2 * 10 ^ 38)"
    by (simp add: d dataBurst_def)
  have i: "cpuRamInRange (ui wr)"
    using loop_gaugeInv [OF world0_gaugeInv, of lib e] by (simp add: wr_def gaugeInv_def)
  have la: "lastAnim wr = 1000 \<and> lastDataMs wr = 1000"
    using loop_line_stamps [OF p _ lineBurst_ok, of world0 1000] l
    by (simp add: wr_def e_def)
  have a2: "animates lib (envAt [] 1060) wr"
    using la by (simp add: animates_def envAt_def drainSerial_def)
  have k: "curNetRatio (ui (loops lib [envAt [] 1060, envAt [] 1120] wr)) = NaN"
    using g loops_net_nan by simp
  have "loops lib [e, envAt [] 1060, envAt [] 1120] world0
      = loops lib [envAt [] 1060, envAt [] 1120] wr"
    by (simp add: loops_def wr_def)
  then show ?thesis
    using g r i a2 k unfolding wr_def e_def lib_def by simp
qed


section \<open>The sleep state machine\<close>

text \<open>
  C10. An animation step whose smoothed load \<open>(0 + curCpu / 100 + curRamRatio) * 0.5\<close>, in
  single-precision operations as on line 482, is at least 0.22 ends with \<^verbatim>\<open>lowLoadSince = 0\<close> and \<^verbatim>\<open>sleepStep = 0\<close>, whether or not the
  character wakes: it stays asleep exactly when it was asleep and the last decode is more
  than 4000 ms old.
\<close>

theorem high_load_resets_sleep_phase:
  assumes "fle (Fin 0.22)
      (fmul (fadd (fadd (Fin 0) (fdiv (curCpu (ui (animate e w))) (Fin 100)))
                  (curRamRatio (ui (animate e w)))) (Fin 0.5))"
  shows "lowLoadSince (ui (animate e w)) = 0 \<and> sleepStep (ui (animate e w)) = 0
    \<and> (tamaSleeping (ui (animate e w)) \<longleftrightarrow> tamaSleeping (ui w) \<and> nowWake e - lastDataMs w > 4000)"
proof -
  have "\<not> flt (curLoad (ui (animate e w))) (Fin 0.22)"
    using fle_not_flt [OF assms] by (simp add: curLoad_def)
  then show ?thesis
    using animate_high by simp
qed

theorem high_load_resets_sleep_phase_witness:
  "fle (Fin 0.22)
      (fmul (fadd (fadd (Fin 0) (fdiv (curCpu (ui (animate (tickAt 6000) worldHot))) (Fin 100)))
                  (curRamRatio (ui (animate (tickAt 6000) worldHot)))) (Fin 0.5))
   \<and> sleepStep (ui worldHot) = 2 \<and> lowLoadSince (ui worldHot) = 77
   \<and> nowWake (tickAt 6000) - lastDataMs worldHot > 4000
   \<and> lowLoadSince (ui (animate (tickAt 6000) worldHot)) = 0
   \<and> sleepStep (ui (animate (tickAt 6000) worldHot)) = 0
   \<and> tamaSleeping (ui (animate (tickAt 6000) worldHot))"
  using high_load_resets_sleep_phase [of "tickAt 6000" worldHot]
  by (simp add: animate_gauges smoothClamp_def Let_def fsub_def fgt_def ovf_def FLT_OVF_def
      worldHot_def ui0_def world0_def tickAt_def)

text \<open>
  C1, as the code has it. (a) When the low-load timestamp is unset and a call of \<^verbatim>\<open>loop\<close>
  animates at a non-zero time \<open>t0\<close> with the smoothed load under 0.22, and the load is
  under 0.22 at every animation step from then up to one at time \<open>tn\<close> with
  \<open>tn - t0 > 9000\<close>, the character is asleep after that step; an animation step with load
  at least 0.22 resets the timestamp to 0. (b) When a message has been decoded and both
  clock readings of a call of \<^verbatim>\<open>loop\<close> are more than 4000 ms past the last decode, the
  character is asleep after the call, whatever the load. (c) After an animation step with
  load at least 0.22 the character is asleep exactly when it was asleep before (or the
  data was stale at line 426) and the last decode is more than 4000 ms old at line 489.
  Time differences are those of the 32-bit counter.
\<close>

theorem sleep_state_machine:
  "(animates lib e0 w \<and> flt (curLoad (ui (loop lib e0 w))) (Fin 0.22)
      \<and> lowLoadSince (ui w) = 0 \<and> now (tick e0) \<noteq> 0
      \<and> lowLoadRun lib es (loop lib e0 w)
      \<and> animates lib en (loops lib es (loop lib e0 w))
      \<and> flt (curLoad (ui (loop lib en (loops lib es (loop lib e0 w))))) (Fin 0.22)
      \<and> now (tick en) - now (tick e0) > 9000
    \<longrightarrow> tamaSleeping (ui (loops lib (e0 # es @ [en]) w)))
   \<and> (animates lib e w \<and> fle (Fin 0.22) (curLoad (ui (loop lib e w)))
    \<longrightarrow> lowLoadSince (ui (loop lib e w)) = 0
        \<and> (tamaSleeping (ui (loop lib e w)) \<longleftrightarrow>
             (tamaSleeping (ui w) \<or> tStale e - lastDataMs (drainSerial lib (serialIn e) w) > 4000)
             \<and> nowWake (tick e) - lastDataMs (drainSerial lib (serialIn e) w) > 4000))
   \<and> (lastDataMs (drainSerial lib (serialIn e) w) \<noteq> 0
      \<and> tStale e - lastDataMs (drainSerial lib (serialIn e) w) > 4000
      \<and> nowWake (tick e) - lastDataMs (drainSerial lib (serialIn e) w) > 4000
    \<longrightarrow> tamaSleeping (ui (loop lib e w)))"
  using low_load_sleep [of lib e0 w es en] loop_high [of lib e w] stale_sleep [of lib e w]
    fle_not_flt [of "Fin 0.22" "curLoad (ui (loop lib e w))"]
  by blast

theorem sleep_state_machine_witness:
  "(animates libEmptyObj (envq 1000) world0
      \<and> flt (curLoad (ui (loop libEmptyObj (envq 1000) world0))) (Fin 0.22)
      \<and> lowLoadSince (ui world0) = 0 \<and> now (tick (envq 1000)) \<noteq> 0
      \<and> lowLoadRun libEmptyObj (map envq (timesFrom 1060 150)) (loop libEmptyObj (envq 1000) world0)
      \<and> animates libEmptyObj (envq 10060)
           (loops libEmptyObj (map envq (timesFrom 1060 150)) (loop libEmptyObj (envq 1000) world0))
      \<and> flt (curLoad (ui (loop libEmptyObj (envq 10060)
           (loops libEmptyObj (map envq (timesFrom 1060 150)) (loop libEmptyObj (envq 1000) world0)))))
          (Fin 0.22)
      \<and> now (tick (envq 10060)) - now (tick (envq 1000)) > 9000
      \<and> \<not> tamaSleeping (ui (loops libEmptyObj (map envq (1000 # timesFrom 1060 150)) world0))
      \<and> tamaSleeping (ui (loops libEmptyObj
           (envq 1000 # map envq (timesFrom 1060 150) @ [envq 10060]) world0)))
   \<and> (animates libEmptyObj (envAt [] 1000) worldHot
      \<and> fle (Fin 0.22) (curLoad (ui (loop libEmptyObj (envAt [] 1000) worldHot)))
      \<and> tamaSleeping (ui worldHot)
      \<and> lowLoadSince (ui (loop libEmptyObj (envAt [] 1000) worldHot)) = 0
      \<and> \<not> tamaSleeping (ui (loop libEmptyObj (envAt [] 1000) worldHot)))
   \<and> (lastDataMs (drainSerial libEmptyObj (serialIn (envAt [] 6000)) worldHot) \<noteq> 0
      \<and> tStale (envAt [] 6000) - lastDataMs (drainSerial libEmptyObj (serialIn (envAt [] 6000)) worldHot) > 4000
      \<and> nowWake (tick (envAt [] 6000))
           - lastDataMs (drainSerial libEmptyObj (serialIn (envAt [] 6000)) worldHot) > 4000
      \<and> fle (Fin 0.22) (curLoad (ui (loop libEmptyObj (envAt [] 6000) worldHot)))
      \<and> tamaSleeping (ui (loop libEmptyObj (envAt [] 6000) worldHot)))"
proof -
  define w1 where "w1 = loop libEmptyObj (envq 1000) world0"
  define w2 where "w2 = loops libEmptyObj (map envq (timesFrom 1060 150)) w1"
  have f: "animates libEmptyObj (envq 1000) world0 \<and> flt (curLoad (ui w1)) (Fin 0.22)
      \<and> quiet w1 \<and> lastAnim w1 = 1000 \<and> lowLoadSince (ui w1) = 1000 \<and> \<not> tamaSleeping (ui w1)"
    using first_quiet_tick by (simp add: w1_def)
  have r: "lowTickRun libEmptyObj (map envq (timesFrom 1060 150)) w1 \<and> quiet w2
      \<and> \<not> tamaSleeping (ui w2) \<and> lastAnim w2 = 10000"
    using quiet_run [of w1 1000 "timesFrom 1060 150"] f times_ok times_last
    by (simp add: w2_def)
  have lr: "lowLoadRun libEmptyObj (map envq (timesFrom 1060 150)) w1"
    using r lowTickRun_lowLoadRun by blast
  have s: "animates libEmptyObj (envq 10060) w2
      \<and> curLoad (ui (loop libEmptyObj (envq 10060) w2)) = Fin 0"
    using quiet_step [of w2 10060] r by simp
  have a: "tamaSleeping (ui (loops libEmptyObj
      (envq 1000 # map envq (timesFrom 1060 150) @ [envq 10060]) world0))"
    using sleep_state_machine [where lib = libEmptyObj and ?e0.0 = "envq 1000" and w = world0
        and es = "map envq (timesFrom 1060 150)" and en = "envq 10060"] f lr s quiet_world0
    by (simp add: w1_def [symmetric] w2_def [symmetric] envq_now)
  have h: "drainSerial libEmptyObj [] worldHot = worldHot"
    by (simp add: drainSerial_def)
  have hv: "lastDataMs worldHot = 900 \<and> lastAnim worldHot = 0 \<and> tamaSleeping (ui worldHot)
      \<and> curCpu (ui worldHot) = Fin 100 \<and> tgtCpu (ui worldHot) = Fin 100
      \<and> curRamRatio (ui worldHot) = Fin 1 \<and> tgtRamRatio (ui worldHot) = Fin 1"
    by (simp add: worldHot_def world0_def ui0_def)
  have an: "animates libEmptyObj (envAt [] t) worldHot" if "\<not> t < 60" for t
    using that by (simp add: animates_def envAt_def h hv)
  have ld: "curLoad (ui (loop libEmptyObj (envAt [] t) worldHot)) = Fin 1" if "\<not> t < 60" for t
  proof -
    have "curLoad (ui (loop libEmptyObj (envAt [] t) worldHot))
        = curLoad (smoothStep (ui ((staleCheck (envAt [] t)
            (drainSerial libEmptyObj (serialIn (envAt [] t)) worldHot)) \<lparr> lastAnim := tAnim (envAt [] t) \<rparr>)))"
      by (simp only: loop_curLoad_anim [OF an [OF that]] animate_curLoad)
    also have "\<dots> = Fin 1"
      using hv by (simp add: curLoad_def smoothStep_def smoothClamp_def Let_def fsub_def fgt_def
          ovf_def FLT_OVF_def envAt_def h staleCheck_def)
    finally show ?thesis .
  qed
  have b: "lowLoadSince (ui (loop libEmptyObj (envAt [] 1000) worldHot)) = 0
      \<and> \<not> tamaSleeping (ui (loop libEmptyObj (envAt [] 1000) worldHot))"
    using sleep_state_machine [where lib = libEmptyObj and e = "envAt [] 1000" and w = worldHot]
      an [of 1000] ld [of 1000]
    by (simp add: envAt_def tickAt_def h hv)
  have c: "tamaSleeping (ui (loop libEmptyObj (envAt [] 6000) worldHot))"
    using sleep_state_machine [where lib = libEmptyObj and e = "envAt [] 6000" and w = worldHot]
    by (simp add: envAt_def tickAt_def h hv)
  have part1: "animates libEmptyObj (envq 1000) world0
      \<and> flt (curLoad (ui (loop libEmptyObj (envq 1000) world0))) (Fin 0.22)
      \<and> lowLoadSince (ui world0) = 0 \<and> now (tick (envq 1000)) \<noteq> 0
      \<and> lowLoadRun libEmptyObj (map envq (timesFrom 1060 150)) (loop libEmptyObj (envq 1000) world0)
      \<and> animates libEmptyObj (envq 10060)
           (loops libEmptyObj (map envq (timesFrom 1060 150)) (loop libEmptyObj (envq 1000) world0))
      \<and> flt (curLoad (ui (loop libEmptyObj (envq 10060)
           (loops libEmptyObj (map envq (timesFrom 1060 150)) (loop libEmptyObj (envq 1000) world0)))))
          (Fin 0.22)
      \<and> now (tick (envq 10060)) - now (tick (envq 1000)) > 9000
      \<and> \<not> tamaSleeping (ui (loops libEmptyObj (map envq (1000 # timesFrom 1060 150)) world0))"
    using f lr s r quiet_world0
    by (simp add: w1_def [symmetric] w2_def [symmetric] envq_now loops_Cons)
  have part2: "animates libEmptyObj (envAt [] 1000) worldHot
      \<and> fle (Fin 0.22) (curLoad (ui (loop libEmptyObj (envAt [] 1000) worldHot)))
      \<and> tamaSleeping (ui worldHot)"
    using an [of 1000] ld [of 1000] hv by simp
  have part3: "lastDataMs (drainSerial libEmptyObj (serialIn (envAt [] 6000)) worldHot) \<noteq> 0
      \<and> tStale (envAt [] 6000) - lastDataMs (drainSerial libEmptyObj (serialIn (envAt [] 6000)) worldHot) > 4000
      \<and> nowWake (tick (envAt [] 6000))
           - lastDataMs (drainSerial libEmptyObj (serialIn (envAt [] 6000)) worldHot) > 4000
      \<and> fle (Fin 0.22) (curLoad (ui (loop libEmptyObj (envAt [] 6000) worldHot)))"
    using ld [of 6000] by (simp add: envAt_def tickAt_def h hv)
  from part1 a part2 b part3 c show ?thesis by blast
qed

text \<open>
  The claim as written sends the character to sleep once the load has been low for 9000
  ms or more. Here \<^verbatim>\<open>loop\<close> animates every 60 ms from 1000 ms to 10000 ms, a fresh message
  arrives at every call, the load is low at each of the 151 animation steps, and after
  the last one, 9000 ms after the first, the character is still awake.
\<close>

theorem sleep_at_9000_counterexample:
  "lowLoadSince (ui world0) = 0 \<and> \<not> tamaSleeping (ui world0)
   \<and> lowTickRun libEmptyObj (map envq (1000 # timesFrom 1060 150)) world0
   \<and> last (1000 # timesFrom 1060 150) - 1000 \<ge> 9000
   \<and> \<not> tamaSleeping (ui (loops libEmptyObj (map envq (1000 # timesFrom 1060 150)) world0))"
proof -
  define w1 where "w1 = loop libEmptyObj (envq 1000) world0"
  have f: "animates libEmptyObj (envq 1000) world0 \<and> flt (curLoad (ui w1)) (Fin 0.22)
      \<and> quiet w1 \<and> lastAnim w1 = 1000 \<and> lowLoadSince (ui w1) = 1000 \<and> \<not> tamaSleeping (ui w1)"
    using first_quiet_tick by (simp add: w1_def)
  have r: "lowTickRun libEmptyObj (map envq (timesFrom 1060 150)) w1
      \<and> \<not> tamaSleeping (ui (loops libEmptyObj (map envq (timesFrom 1060 150)) w1))"
    using quiet_run [of w1 1000 "timesFrom 1060 150"] f times_ok by simp
  have l: "last (1000 # timesFrom 1060 150) - 1000 \<ge> (9000 :: ulong)"
    by (simp only: times_last) simp
  show ?thesis
    using f r l quiet_world0 by (simp add: w1_def [symmetric] loops_Cons)
qed


section \<open>Sticky defaults\<close>

text \<open>
  C3, as the code has it. After a successful decode every recognised snapshot field whose
  key is absent from the document has its prior value, and so has \<^verbatim>\<open>appName\<close>. Decoding the
  empty object leaves the whole snapshot and every static untouched, but the steps after
  the field update still run: the targets are derived again from the snapshot, the
  network scale decays when both rates are known, the ticker is rebuilt and \<^verbatim>\<open>hasData\<close>
  is set.
\<close>

theorem sticky_defaults:
  assumes "deserializeJson lib l = Inr doc"
  shows "(\<not> containsKey doc ''cpu'' \<longrightarrow> cpu (dat (snd (updateFromJsonLine lib l w))) = cpu (dat w))
    \<and> (\<not> containsKey doc ''ram'' \<longrightarrow> ram (dat (snd (updateFromJsonLine lib l w))) = ram (dat w))
    \<and> (\<not> containsKey doc ''ram_used''
          \<longrightarrow> ram_used (dat (snd (updateFromJsonLine lib l w))) = ram_used (dat w))
    \<and> (\<not> containsKey (getMember doc ''weather'') ''temp''
          \<longrightarrow> tempC (dat (snd (updateFromJsonLine lib l w))) = tempC (dat w))
    \<and> (\<not> containsKey doc ''host'' \<longrightarrow> host (dat (snd (updateFromJsonLine lib l w))) = host (dat w))
    \<and> (\<not> containsKey doc ''time'' \<longrightarrow> epoch (dat (snd (updateFromJsonLine lib l w))) = epoch (dat w))
    \<and> (\<not> containsKey doc ''uptime''
          \<longrightarrow> uptime (dat (snd (updateFromJsonLine lib l w))) = uptime (dat w))
    \<and> (\<not> containsKey doc ''disk_free''
          \<longrightarrow> diskFreeKB (dat (snd (updateFromJsonLine lib l w))) = diskFreeKB (dat w))
    \<and> (\<not> containsKey (getMember doc ''net'') ''rx''
          \<longrightarrow> net_rx (dat (snd (updateFromJsonLine lib l w))) = net_rx (dat w))
    \<and> (\<not> containsKey (getMember doc ''net'') ''tx''
          \<longrightarrow> net_tx (dat (snd (updateFromJsonLine lib l w))) = net_tx (dat w))
    \<and> (\<not> containsKey doc ''app'' \<longrightarrow> appName (snd (updateFromJsonLine lib l w)) = appName w)
    \<and> weatherDesc (dat (snd (updateFromJsonLine lib l w))) = weatherDesc (dat w)
    \<and> (doc = JObject [] \<longrightarrow>
          dat (snd (updateFromJsonLine lib l w)) = dat w
        \<and> snd (updateFromJsonLine lib l w)
            = w \<lparr> ui := (updateTicker (dat w) (updateTargets (dat w) (ui w))) \<lparr> hasData := True \<rparr> \<rparr>)"
proof -
  note d = decode_dat [OF assms, of w]
  have k: "\<not> containsKey j k \<Longrightarrow> getMember j k = JNull" for j k
    by (rule getMember_absent)
  have fields: "(\<not> containsKey doc ''cpu'' \<longrightarrow> cpu (dat (readValues lib doc w)) = cpu (dat w))
    \<and> (\<not> containsKey doc ''ram'' \<longrightarrow> ram (dat (readValues lib doc w)) = ram (dat w))
    \<and> (\<not> containsKey doc ''ram_used'' \<longrightarrow> ram_used (dat (readValues lib doc w)) = ram_used (dat w))
    \<and> (\<not> containsKey (getMember doc ''weather'') ''temp''
          \<longrightarrow> tempC (dat (readValues lib doc w)) = tempC (dat w))
    \<and> (\<not> containsKey doc ''host'' \<longrightarrow> host (dat (readValues lib doc w)) = host (dat w))
    \<and> (\<not> containsKey doc ''time'' \<longrightarrow> epoch (dat (readValues lib doc w)) = epoch (dat w))
    \<and> (\<not> containsKey doc ''uptime'' \<longrightarrow> uptime (dat (readValues lib doc w)) = uptime (dat w))
    \<and> (\<not> containsKey doc ''disk_free''
          \<longrightarrow> diskFreeKB (dat (readValues lib doc w)) = diskFreeKB (dat w))
    \<and> (\<not> containsKey (getMember doc ''net'') ''rx''
          \<longrightarrow> net_rx (dat (readValues lib doc w)) = net_rx (dat w))
    \<and> (\<not> containsKey (getMember doc ''net'') ''tx''
          \<longrightarrow> net_tx (dat (readValues lib doc w)) = net_tx (dat w))
    \<and> (\<not> containsKey doc ''app'' \<longrightarrow> appName (readValues lib doc w) = appName w)
    \<and> weatherDesc (dat (readValues lib doc w)) = weatherDesc (dat w)"
    by (simp add: readValues_def Let_def k)
  have empty: "dat (snd (updateFromJsonLine lib l w)) = dat w
        \<and> snd (updateFromJsonLine lib l w)
            = w \<lparr> ui := (updateTicker (dat w) (updateTargets (dat w) (ui w))) \<lparr> hasData := True \<rparr> \<rparr>"
    if e: "doc = JObject []"
  proof -
    have r: "readValues lib (JObject []) w = w"
      by (simp add: readValues_def Let_def)
    show ?thesis
      using assms by (simp add: decode_ok e r)
  qed
  from fields empty show ?thesis
    by (simp only: d) blast
qed

theorem sticky_defaults_witness:
  "deserializeJson libEmptyObj ''{}'' = Inr (JObject [])
   \<and> \<not> containsKey (JObject []) ''cpu'' \<and> \<not> containsKey (JObject []) ''ram''
   \<and> \<not> containsKey (JObject []) ''ram_used''
   \<and> \<not> containsKey (getMember (JObject []) ''weather'') ''temp''
   \<and> \<not> containsKey (JObject []) ''host'' \<and> \<not> containsKey (JObject []) ''time''
   \<and> \<not> containsKey (JObject []) ''uptime'' \<and> \<not> containsKey (JObject []) ''disk_free''
   \<and> \<not> containsKey (getMember (JObject []) ''net'') ''rx''
   \<and> \<not> containsKey (getMember (JObject []) ''net'') ''tx''
   \<and> \<not> containsKey (JObject []) ''app''
   \<and> dat (snd (updateFromJsonLine libEmptyObj ''{}'' worldNet)) = dat worldNet
   \<and> appName (snd (updateFromJsonLine libEmptyObj ''{}'' worldNet)) = appName worldNet
   \<and> deserializeJson (libConst (Inr docCpu)) ''{\"cpu\":55}'' = Inr docCpu
   \<and> \<not> containsKey docCpu ''ram''
   \<and> ram (dat (snd (updateFromJsonLine (libConst (Inr docCpu)) ''{\"cpu\":55}'' world0))) = - 1
   \<and> cpu (dat (snd (updateFromJsonLine (libConst (Inr docCpu)) ''{\"cpu\":55}'' world0))) = Fin 55"
  using sticky_defaults [of libEmptyObj "''{}''" "JObject []" worldNet]
    sticky_defaults [of "libConst (Inr docCpu)" "''{\"cpu\":55}''" docCpu world0]
  by (simp add: libEmptyObj_def libConst_def docCpu_def world0_def data0_def decode_ok readValues_def
      ovf_def FLT_OVF_def)

text \<open>
  The claim as written has the empty object change nothing at all. From the initial state
  it sets \<^verbatim>\<open>hasData\<close> and writes the placeholder ticker; with both network rates known it
  lowers the scale from 100 to 99.6.
\<close>

theorem empty_object_counterexample:
  "deserializeJson libEmptyObj ''{}'' = Inr (JObject [])
   \<and> \<not> hasData (ui world0)
   \<and> hasData (ui (snd (updateFromJsonLine libEmptyObj ''{}'' world0)))
   \<and> tickerText (ui world0) = []
   \<and> tickerText (ui (snd (updateFromJsonLine libEmptyObj ''{}'' world0))) = '' Smart Monitor   ''
   \<and> netMaxKBs (ui worldNet) = Fin 100
   \<and> netMaxKBs (ui (snd (updateFromJsonLine libEmptyObj ''{}'' worldNet))) = Fin 99.6
   \<and> snd (updateFromJsonLine libEmptyObj ''{}'' worldNet) \<noteq> worldNet"
proof -
  have p: "deserializeJson libEmptyObj ''{}'' = Inr (JObject [])"
    by (simp add: libEmptyObj_def libConst_def)
  have r: "readValues libEmptyObj (JObject []) w = w" for w
    by (simp add: readValues_def Let_def)
  have 1: "\<not> hasData (ui world0) \<and> tickerText (ui world0) = []"
    by (simp add: world0_def ui0_def)
  have 2: "hasData (ui (snd (updateFromJsonLine libEmptyObj ''{}'' world0)))"
    by (simp add: decode_ok [OF p])
  have 3: "tickerText (ui (snd (updateFromJsonLine libEmptyObj ''{}'' world0))) = '' Smart Monitor   ''"
    by (simp add: decode_ok [OF p] r updateTicker_shape tickerBody_def Let_def fge_def world0_def data0_def)
  have 4: "netMaxKBs (ui worldNet) = Fin 100"
    by (simp add: worldNet_def world0_def ui0_def)
  have 5: "netMaxKBs (ui (snd (updateFromJsonLine libEmptyObj ''{}'' worldNet))) = Fin 99.6"
    by (simp add: decode_ok [OF p] r updateTicker_shape updateTargets_def netTarget_def Let_def
        fmax_def fgt_def fge_def ovf_def FLT_OVF_def worldNet_def world0_def data0_def ui0_def)
  have 6: "snd (updateFromJsonLine libEmptyObj ''{}'' worldNet) \<noteq> worldNet"
    using 4 5 by auto
  from p 1 2 3 4 5 6 show ?thesis by blast
qed


section \<open>Ranges of the targets\<close>

text \<open>
  C7, as the code has it. In every state reached from the initial state by calls of
  \<^verbatim>\<open>loop\<close> (any input, any clock), the displayed CPU value is in \<open>[0,100]\<close>, the displayed RAM
  ratio is in \<open>[0,1]\<close>, and the CPU and RAM targets are not negative. These two targets
  are not clamped: they are the snapshot's CPU figure and its used-to-total RAM quotient
  whenever the snapshot has them, so they are within 100 and 1 when the snapshot's
  figures are.
\<close>

theorem targets_follow_snapshot:
  "fle (Fin 0) (curCpu (ui (loops lib es world0)))
   \<and> fle (curCpu (ui (loops lib es world0))) (Fin 100)
   \<and> fle (Fin 0) (curRamRatio (ui (loops lib es world0)))
   \<and> fle (curRamRatio (ui (loops lib es world0))) (Fin 1)
   \<and> fle (Fin 0) (tgtCpu (ui (loops lib es world0)))
   \<and> fle (Fin 0) (tgtRamRatio (ui (loops lib es world0)))
   \<and> (fge (cpu (dat (loops lib es world0))) (Fin 0)
        \<longrightarrow> tgtCpu (ui (loops lib es world0)) = cpu (dat (loops lib es world0)))
   \<and> (0 < ram (dat (loops lib es world0)) \<and> 0 \<le> ram_used (dat (loops lib es world0))
        \<longrightarrow> tgtRamRatio (ui (loops lib es world0))
            = fdiv (of_long (ram_used (dat (loops lib es world0))))
                   (of_long (ram (dat (loops lib es world0)))))
   \<and> (fge (cpu (dat (loops lib es world0))) (Fin 0) \<and> fle (cpu (dat (loops lib es world0))) (Fin 100)
        \<longrightarrow> fle (tgtCpu (ui (loops lib es world0))) (Fin 100))
   \<and> (0 < ram (dat (loops lib es world0)) \<and> 0 \<le> ram_used (dat (loops lib es world0))
        \<and> ram_used (dat (loops lib es world0)) \<le> ram (dat (loops lib es world0))
        \<longrightarrow> fle (tgtRamRatio (ui (loops lib es world0))) (Fin 1))"
proof -
  define w where "w = loops lib es world0"
  have i: "gaugeInv w"
    using loops_gaugeInv [OF world0_gaugeInv] by (simp add: w_def)
  have c: "fle (Fin 0) (curCpu (ui w)) \<and> fle (curCpu (ui w)) (Fin 100)
      \<and> fle (Fin 0) (curRamRatio (ui w)) \<and> fle (curRamRatio (ui w)) (Fin 1)"
    using i by (simp add: gaugeInv_def cpuRamInRange_def)
  have n: "fle (Fin 0) (tgtCpu (ui w)) \<and> fle (Fin 0) (tgtRamRatio (ui w))"
    using i targetsTrack_nonneg [of "dat w" "ui w"] by (simp add: gaugeInv_def)
  have t1: "tgtCpu (ui w) = cpu (dat w)" if "fge (cpu (dat w)) (Fin 0)"
    using i that by (simp add: gaugeInv_def targetsTrack_def)
  have t2: "tgtRamRatio (ui w) = fdiv (of_long (ram_used (dat w))) (of_long (ram (dat w)))"
    if "0 < ram (dat w)" "0 \<le> ram_used (dat w)"
    using i that by (simp add: gaugeInv_def targetsTrack_def)
  have r: "fle (tgtRamRatio (ui w)) (Fin 1)"
    if "0 < ram (dat w)" "0 \<le> ram_used (dat w)" "ram_used (dat w) \<le> ram (dat w)"
    using t2 [OF that(1,2)] ratio_le_one [OF that] by simp
  show ?thesis
    unfolding w_def [symmetric]
    using c n t1 t2 r by simp
qed

theorem targets_follow_snapshot_witness:
  "fge (cpu (dat (loops (libConst (Inr docHalf)) [envAt (lineAt lineHalf 1000) 1000] world0))) (Fin 0)
   \<and> fle (cpu (dat (loops (libConst (Inr docHalf)) [envAt (lineAt lineHalf 1000) 1000] world0))) (Fin 100)
   \<and> 0 < ram (dat (loops (libConst (Inr docHalf)) [envAt (lineAt lineHalf 1000) 1000] world0))
   \<and> 0 \<le> ram_used (dat (loops (libConst (Inr docHalf)) [envAt (lineAt lineHalf 1000) 1000] world0))
   \<and> ram_used (dat (loops (libConst (Inr docHalf)) [envAt (lineAt lineHalf 1000) 1000] world0))
       \<le> ram (dat (loops (libConst (Inr docHalf)) [envAt (lineAt lineHalf 1000) 1000] world0))
   \<and> tgtCpu (ui (loops (libConst (Inr docHalf)) [envAt (lineAt lineHalf 1000) 1000] world0)) = Fin 55
   \<and> tgtRamRatio (ui (loops (libConst (Inr docHalf)) [envAt (lineAt lineHalf 1000) 1000] world0))
       = Fin 0.5"
proof -
  have p: "deserializeJson (libConst (Inr docHalf)) lineHalf = Inr docHalf"
    by (simp add: libConst_def)
  have l: "line world0 = []"
    by (simp add: world0_def)
  have d: "dat (loops (libConst (Inr docHalf)) [envAt (lineAt lineHalf 1000) 1000] world0)
      = dat (readValues (libConst (Inr docHalf)) docHalf (world0 \<lparr> line := lineHalf \<rparr>))"
    using loop_decoded_dat [OF p l lineHalf_ok] by (simp add: loops_def)
  have v: "cpu (dat (readValues (libConst (Inr docHalf)) docHalf (world0 \<lparr> line := lineHalf \<rparr>))) = Fin 55
      \<and> ram (dat (readValues (libConst (Inr docHalf)) docHalf (world0 \<lparr> line := lineHalf \<rparr>))) = 8000000
      \<and> ram_used (dat (readValues (libConst (Inr docHalf)) docHalf (world0 \<lparr> line := lineHalf \<rparr>))) = 4000000"
    by (simp add: readValues_def Let_def docHalf_def world0_def data0_def LONG_MIN_def LONG_MAX_def
        ovf_def FLT_OVF_def)
  show ?thesis
    using targets_follow_snapshot [of "libConst (Inr docHalf)" "[envAt (lineAt lineHalf 1000) 1000]"]
    by (simp add: d v fge_def of_long_def ovf_def FLT_OVF_def)
qed

text \<open>
  The claim as written bounds the targets for every message. The message with CPU 150
  and 3000 KB used of 1000 KB sets the CPU target to 150 and the RAM target to 3.
\<close>

theorem targets_unclamped_counterexample:
  "fst (updateFromJsonLine (libConst (Inr docOver)) lineOver world0)
   \<and> tgtCpu (ui (snd (updateFromJsonLine (libConst (Inr docOver)) lineOver world0))) = Fin 150
   \<and> \<not> fle (tgtCpu (ui (snd (updateFromJsonLine (libConst (Inr docOver)) lineOver world0)))) (Fin 100)
   \<and> tgtRamRatio (ui (snd (updateFromJsonLine (libConst (Inr docOver)) lineOver world0))) = Fin 3
   \<and> \<not> fle (tgtRamRatio (ui (snd (updateFromJsonLine (libConst (Inr docOver)) lineOver world0)))) (Fin 1)"
proof -
  have p: "deserializeJson (libConst (Inr docOver)) lineOver = Inr docOver"
    by (simp add: libConst_def)
  have v: "cpu (dat (readValues (libConst (Inr docOver)) docOver world0)) = Fin 150
      \<and> ram (dat (readValues (libConst (Inr docOver)) docOver world0)) = 1000
      \<and> ram_used (dat (readValues (libConst (Inr docOver)) docOver world0)) = 3000"
    by (simp add: readValues_def Let_def docOver_def world0_def data0_def LONG_MIN_def LONG_MAX_def
        ovf_def FLT_OVF_def)
  have "tgtCpu (updateTargets (dat (readValues (libConst (Inr docOver)) docOver world0)) (ui world0)) = Fin 150
    \<and> tgtRamRatio (updateTargets (dat (readValues (libConst (Inr docOver)) docOver world0)) (ui world0)) = Fin 3"
    by (simp add: updateTargets_cpu_ram v fge_def of_long_def ovf_def FLT_OVF_def)
  then show ?thesis
    by (simp add: decode_ok [OF p] updateTicker_shape)
qed


section \<open>The ticker\<close>

text \<open>
  C9, as the code has it. After a successful decode the ticker text is the concatenation
  of the segments of the available fields, in the order temperature, CPU, free RAM
  (\<open>(ram - ram_used) / 1024\<close> MB), free disk, uptime, followed by three spaces; the
  temperature segment starts with one space, the others with two spaces and their label.
  With no field available the text is the placeholder \<^verbatim>\<open>" Smart Monitor"\<close> and the three
  spaces. The text is never empty and the ticker width is 6 pixels per character.
\<close>

theorem ticker_rebuilt:
  assumes "deserializeJson lib l = Inr doc"
  shows "tickerText (ui (snd (updateFromJsonLine lib l w)))
      = (if spec_tickerFields (dat (snd (updateFromJsonLine lib l w))) = [] then '' Smart Monitor''
         else spec_tickerFields (dat (snd (updateFromJsonLine lib l w)))) @ ''   ''
    \<and> tickerText (ui (snd (updateFromJsonLine lib l w))) \<noteq> []
    \<and> tickerW (ui (snd (updateFromJsonLine lib l w)))
        = 6 * int (length (tickerText (ui (snd (updateFromJsonLine lib l w)))))
    \<and> (isnan (tempC (dat (snd (updateFromJsonLine lib l w))))
        \<and> \<not> fge (cpu (dat (snd (updateFromJsonLine lib l w)))) (Fin 0)
        \<and> \<not> (0 < ram (dat (snd (updateFromJsonLine lib l w)))
              \<and> 0 \<le> ram_used (dat (snd (updateFromJsonLine lib l w))))
        \<and> diskFreeKB (dat (snd (updateFromJsonLine lib l w))) < 0
        \<and> uptime (dat (snd (updateFromJsonLine lib l w))) < 0
       \<longrightarrow> tickerText (ui (snd (updateFromJsonLine lib l w))) = '' Smart Monitor   '')
    \<and> (\<not> isnan (tempC (dat (snd (updateFromJsonLine lib l w))))
        \<or> fge (cpu (dat (snd (updateFromJsonLine lib l w)))) (Fin 0)
        \<or> (0 < ram (dat (snd (updateFromJsonLine lib l w)))
              \<and> 0 \<le> ram_used (dat (snd (updateFromJsonLine lib l w))))
        \<or> 0 \<le> diskFreeKB (dat (snd (updateFromJsonLine lib l w)))
        \<or> 0 \<le> uptime (dat (snd (updateFromJsonLine lib l w)))
       \<longrightarrow> tickerText (ui (snd (updateFromJsonLine lib l w)))
            = spec_tickerFields (dat (snd (updateFromJsonLine lib l w))) @ ''   '')"
proof -
  define d where "d = dat (snd (updateFromJsonLine lib l w))"
  define tt where "tt = tickerText (ui (snd (updateFromJsonLine lib l w)))"
  have t: "tt = (if spec_tickerFields d = [] then '' Smart Monitor'' else spec_tickerFields d) @ ''   ''"
    using decode_ticker [OF assms, of w] by (simp add: tt_def d_def tickerBody_fields)
  have ne: "tt \<noteq> []"
    by (simp add: t)
  have wd: "tickerW (ui (snd (updateFromJsonLine lib l w))) = 6 * int (length tt)"
    using decode_ticker [OF assms, of w] by (simp add: tt_def textWidth_def)
  have none: "spec_tickerFields d = []"
    if "isnan (tempC d)" "\<not> fge (cpu d) (Fin 0)" "\<not> (0 < ram d \<and> 0 \<le> ram_used d)"
      "diskFreeKB d < 0" "uptime d < 0"
    using that by (simp add: spec_tickerFields_def spec_segTemp_def spec_segCpu_def
      spec_segRam_def spec_segDisk_def spec_segUptime_def)
  have some: "spec_tickerFields d \<noteq> []"
    if "\<not> isnan (tempC d) \<or> fge (cpu d) (Fin 0) \<or> (0 < ram d \<and> 0 \<le> ram_used d)
      \<or> 0 \<le> diskFreeKB d \<or> 0 \<le> uptime d"
    using that by (auto simp: spec_tickerFields_def spec_segTemp_def spec_segCpu_def
      spec_segRam_def spec_segDisk_def spec_segUptime_def)
  show ?thesis
    unfolding d_def [symmetric] tt_def [symmetric]
    using t ne wd none some by auto
qed

theorem ticker_rebuilt_witness:
  "deserializeJson (libConst (Inr docFull)) lineFull = Inr docFull
   \<and> fge (cpu (dat (snd (updateFromJsonLine (libConst (Inr docFull)) lineFull world0)))) (Fin 0)
   \<and> tickerText (ui (snd (updateFromJsonLine (libConst (Inr docFull)) lineFull world0)))
       = '' 21C  CPU 55%  RAM 3906MB  DISK 50GB  UPT 1d 2h3m   ''
   \<and> tickerW (ui (snd (updateFromJsonLine (libConst (Inr docFull)) lineFull world0))) = 312
   \<and> deserializeJson libEmptyObj ''{}'' = Inr (JObject [])
   \<and> isnan (tempC (dat (snd (updateFromJsonLine libEmptyObj ''{}'' world0))))
   \<and> \<not> fge (cpu (dat (snd (updateFromJsonLine libEmptyObj ''{}'' world0)))) (Fin 0)
   \<and> \<not> (0 < ram (dat (snd (updateFromJsonLine libEmptyObj ''{}'' world0)))
          \<and> 0 \<le> ram_used (dat (snd (updateFromJsonLine libEmptyObj ''{}'' world0))))
   \<and> diskFreeKB (dat (snd (updateFromJsonLine libEmptyObj ''{}'' world0))) < 0
   \<and> uptime (dat (snd (updateFromJsonLine libEmptyObj ''{}'' world0))) < 0
   \<and> tickerText (ui (snd (updateFromJsonLine libEmptyObj ''{}'' world0))) = '' Smart Monitor   ''"
proof -
  have p: "deserializeJson (libConst (Inr docFull)) lineFull = Inr docFull"
    by (simp add: libConst_def)
  have q: "deserializeJson libEmptyObj ''{}'' = Inr (JObject [])"
    by (simp add: libEmptyObj_def libConst_def)
  have d: "dat (snd (updateFromJsonLine (libConst (Inr docFull)) lineFull world0))
      = dataFull"
    by (simp add: decode_dat [OF p] docFull_values)
  have e: "dat (snd (updateFromJsonLine libEmptyObj ''{}'' world0)) = data0"
    by (simp add: decode_dat [OF q] readValues_empty world0_def)
  have 1: "tickerText (ui (snd (updateFromJsonLine (libConst (Inr docFull)) lineFull world0)))
       = '' 21C  CPU 55%  RAM 3906MB  DISK 50GB  UPT 1d 2h3m   ''
     \<and> tickerW (ui (snd (updateFromJsonLine (libConst (Inr docFull)) lineFull world0))) = 312"
    using ticker_rebuilt [OF p, of world0] by (simp add: d fields_full)
  have z: "isnan (tempC data0) \<and> \<not> fge (cpu data0) (Fin 0)
      \<and> \<not> (0 < ram data0 \<and> 0 \<le> ram_used data0)
      \<and> diskFreeKB data0 < 0 \<and> uptime data0 < 0"
    by (simp add: data0_def fge_def)
  have 2: "tickerText (ui (snd (updateFromJsonLine libEmptyObj ''{}'' world0))) = '' Smart Monitor   ''"
    using ticker_rebuilt [OF q, of world0] z unfolding e by blast
  have 3: "fge (cpu dataFull) (Fin 0)"
    by (simp add: dataFull_def data0_def fge_def)
  show ?thesis
    using p q 1 2 3 z by (simp add: d e)
qed

text \<open>
  The claim as written prefixes every field with two spaces. A message with a
  temperature alone gives a ticker that starts with one space.
\<close>

theorem ticker_temperature_counterexample:
  "fst (updateFromJsonLine (libConst (Inr docTemp)) lineTemp world0)
   \<and> tempC (dat (snd (updateFromJsonLine (libConst (Inr docTemp)) lineTemp world0))) = Fin 21.5
   \<and> tickerText (ui (snd (updateFromJsonLine (libConst (Inr docTemp)) lineTemp world0))) = '' 21C   ''
   \<and> take 2 (tickerText (ui (snd (updateFromJsonLine (libConst (Inr docTemp)) lineTemp world0))))
       \<noteq> ''  ''"
proof -
  have p: "deserializeJson (libConst (Inr docTemp)) lineTemp = Inr docTemp"
    by (simp add: libConst_def)
  have d: "dat (readValues (libConst (Inr docTemp)) docTemp world0) = dataTemp"
    by (simp add: readValues_def Let_def docTemp_def world0_def data0_def dataTemp_def
        ovf_def FLT_OVF_def)
  have b: "tickerBody dataTemp = '' 21C''"
    by (simp add: tickerBody_def Let_def data0_def dataTemp_def trunc_def fge_def String_of_int_def
        dec_nat.simps digit_char_def)
  have v: "tempC dataTemp = Fin 21.5"
    by (simp add: dataTemp_def)
  have t: "tickerText (ui (snd (updateFromJsonLine (libConst (Inr docTemp)) lineTemp world0)))
      = '' 21C   ''"
    using decode_ticker [OF p, of world0] by (simp add: decode_dat [OF p] d b)
  show ?thesis
    using t by (simp add: decode_ok_snd [OF p] decode_dat [OF p] d v)
qed


section \<open>The face\<close>

text \<open>
  C6, as the code has it. The load behind the face is the snapshot's CPU fraction plus the
  snapshot's used-to-total RAM quotient, an absent figure counting as 0, times 0.5, in
  single-precision operations; it is computed from the latest decoded snapshot, and the
  smoothed values play no part in it. Awake, the face is happy (arched brows, smile)
  under 0.42, neutral (no brows, flat mouth) from 0.42 to under 0.68, and sad (slanted
  brows, frown) above 0.68. Asleep, it has no brows and the flat mouth whatever the load.
\<close>

theorem face_from_snapshot:
  "moodLoad d
     = fmul (fadd (if fge (cpu d) (Fin 0) then fdiv (cpu d) (Fin 100) else Fin 0)
                  (if 0 < ram d \<and> 0 \<le> ram_used d
                   then fdiv (of_long (ram_used d)) (of_long (ram d)) else Fin 0))
            (Fin 0.5)
   \<and> (\<not> tamaSleeping u \<and> flt (moodLoad d) (Fin 0.42)
        \<longrightarrow> faceBrows u d = BrowsHappy \<and> faceMouth u d = MouthSmile)
   \<and> (\<not> tamaSleeping u \<and> fle (Fin 0.42) (moodLoad d) \<and> flt (moodLoad d) (Fin 0.68)
        \<longrightarrow> faceBrows u d = BrowsNone \<and> faceMouth u d = MouthFlat)
   \<and> (\<not> tamaSleeping u \<and> flt (Fin 0.68) (moodLoad d)
        \<longrightarrow> faceBrows u d = BrowsSad \<and> faceMouth u d = MouthFrown)
   \<and> (tamaSleeping u \<longrightarrow> faceBrows u d = BrowsNone \<and> faceMouth u d = MouthFlat)
   \<and> faceBrows (u \<lparr> curCpu := a, curRamRatio := b \<rparr>) d = faceBrows u d
   \<and> faceMouth (u \<lparr> curCpu := a, curRamRatio := b \<rparr>) d = faceMouth u d"
proof -
  have f: "moodLoad d
     = fmul (fadd (if fge (cpu d) (Fin 0) then fdiv (cpu d) (Fin 100) else Fin 0)
                  (if 0 < ram d \<and> 0 \<le> ram_used d
                   then fdiv (of_long (ram_used d)) (of_long (ram d)) else Fin 0))
            (Fin 0.5)"
    by (simp add: moodLoad_def Let_def fadd_zero_left fadd_zero_right ovf_zero)
  have h: "\<not> tamaSleeping u \<and> flt (moodLoad d) (Fin 0.42)
        \<longrightarrow> faceBrows u d = BrowsHappy \<and> faceMouth u d = MouthSmile"
    by (simp add: faceBrows_def faceMouth_def)
  have n: "\<not> tamaSleeping u \<and> fle (Fin 0.42) (moodLoad d) \<and> flt (moodLoad d) (Fin 0.68)
        \<longrightarrow> faceBrows u d = BrowsNone \<and> faceMouth u d = MouthFlat"
    using fle_not_flt [of "Fin 0.42" "moodLoad d"] flt_asym [of "moodLoad d" "Fin 0.68"]
    by (auto simp: faceBrows_def faceMouth_def fgt_def)
  have s: "\<not> tamaSleeping u \<and> flt (Fin 0.68) (moodLoad d)
        \<longrightarrow> faceBrows u d = BrowsSad \<and> faceMouth u d = MouthFrown"
    using flt_asym [of "Fin 0.68" "moodLoad d"] flt_trans [of "moodLoad d" "Fin 0.42" "Fin 0.68"]
    by (auto simp: faceBrows_def faceMouth_def fgt_def)
  have z: "tamaSleeping u \<longrightarrow> faceBrows u d = BrowsNone \<and> faceMouth u d = MouthFlat"
    by (simp add: faceBrows_def faceMouth_def)
  have i: "faceBrows (u \<lparr> curCpu := a, curRamRatio := b \<rparr>) d = faceBrows u d
      \<and> faceMouth (u \<lparr> curCpu := a, curRamRatio := b \<rparr>) d = faceMouth u d"
    by (simp add: faceBrows_def faceMouth_def)
  from f h n s z i show ?thesis by blast
qed

theorem face_from_snapshot_witness:
  "\<not> tamaSleeping ui0 \<and> flt (moodLoad dataLight) (Fin 0.42)
   \<and> faceBrows ui0 dataLight = BrowsHappy \<and> faceMouth ui0 dataLight = MouthSmile
   \<and> fle (Fin 0.42) (moodLoad dataHalf) \<and> flt (moodLoad dataHalf) (Fin 0.68)
   \<and> faceBrows ui0 dataHalf = BrowsNone \<and> faceMouth ui0 dataHalf = MouthFlat
   \<and> flt (Fin 0.68) (moodLoad dataFullLoad)
   \<and> faceBrows ui0 dataFullLoad = BrowsSad \<and> faceMouth ui0 dataFullLoad = MouthFrown
   \<and> tamaSleeping (ui worldHot)
   \<and> faceBrows (ui worldHot) dataFullLoad = BrowsNone
   \<and> faceMouth (ui worldHot) dataFullLoad = MouthFlat"
proof -
  have a: "\<not> tamaSleeping ui0" by (simp add: ui0_def)
  have s: "tamaSleeping (ui worldHot)" by (simp add: worldHot_def ui0_def world0_def)
  have m: "flt (moodLoad dataLight) (Fin 0.42) \<and> fle (Fin 0.42) (moodLoad dataHalf)
      \<and> flt (moodLoad dataHalf) (Fin 0.68) \<and> flt (Fin 0.68) (moodLoad dataFullLoad)"
    by (simp add: moodLoad_values)
  have 1: "faceBrows ui0 dataLight = BrowsHappy \<and> faceMouth ui0 dataLight = MouthSmile"
    using face_from_snapshot [of dataLight ui0 "Fin 0" "Fin 0", THEN conjunct2, THEN conjunct1] a m
    by blast
  have 2: "faceBrows ui0 dataHalf = BrowsNone \<and> faceMouth ui0 dataHalf = MouthFlat"
    using face_from_snapshot [of dataHalf ui0 "Fin 0" "Fin 0", THEN conjunct2, THEN conjunct2,
        THEN conjunct1] a m by blast
  have 3: "faceBrows ui0 dataFullLoad = BrowsSad \<and> faceMouth ui0 dataFullLoad = MouthFrown"
    using face_from_snapshot [of dataFullLoad ui0 "Fin 0" "Fin 0", THEN conjunct2, THEN conjunct2,
        THEN conjunct2, THEN conjunct1] a m by blast
  have 4: "faceBrows (ui worldHot) dataFullLoad = BrowsNone
      \<and> faceMouth (ui worldHot) dataFullLoad = MouthFlat"
    using face_from_snapshot [of dataFullLoad "ui worldHot" "Fin 0" "Fin 0", THEN conjunct2,
        THEN conjunct2, THEN conjunct2, THEN conjunct2, THEN conjunct1] s by blast
  from a s m 1 2 3 4 show ?thesis by blast
qed

text \<open>
  The claim as written takes the load from the smoothed values. The first message, at
  full load, is decoded and one animation step runs: the smoothed load is 0.15, which
  the claim calls happy, and the face drawn is the sad one.
\<close>

theorem face_ignores_smoothed_counterexample:
  "animates (libConst (Inr docFullLoad)) (envAt (lineAt lineFullLoad 1000) 1000) world0
   \<and> \<not> tamaSleeping (ui (loop (libConst (Inr docFullLoad)) (envAt (lineAt lineFullLoad 1000) 1000) world0))
   \<and> flt (fadd
        (fmul (Fin 0.5) (fdiv (curCpu (ui (loop (libConst (Inr docFullLoad))
           (envAt (lineAt lineFullLoad 1000) 1000) world0))) (Fin 100)))
        (fmul (Fin 0.5) (curRamRatio (ui (loop (libConst (Inr docFullLoad))
           (envAt (lineAt lineFullLoad 1000) 1000) world0)))))
      (Fin 0.42)
   \<and> faceBrows (ui (loop (libConst (Inr docFullLoad)) (envAt (lineAt lineFullLoad 1000) 1000) world0))
        (dat (loop (libConst (Inr docFullLoad)) (envAt (lineAt lineFullLoad 1000) 1000) world0))
      = BrowsSad
   \<and> faceMouth (ui (loop (libConst (Inr docFullLoad)) (envAt (lineAt lineFullLoad 1000) 1000) world0))
        (dat (loop (libConst (Inr docFullLoad)) (envAt (lineAt lineFullLoad 1000) 1000) world0))
      = MouthFrown"
proof -
  define lib where "lib = libConst (Inr docFullLoad)"
  define e where "e = envAt (lineAt lineFullLoad 1000) 1000"
  define wr where "wr = loop lib e world0"
  have p: "deserializeJson lib lineFullLoad = Inr docFullLoad"
    by (simp add: lib_def libConst_def)
  have l: "line world0 = [] \<and> lastAnim world0 = 0 \<and> curCpu (ui world0) = Fin 0
      \<and> curRamRatio (ui world0) = Fin 0 \<and> \<not> tamaSleeping (ui world0) \<and> lowLoadSince (ui world0) = 0"
    by (simp add: world0_def ui0_def)
  have t: "tgtCpu (updateTargets dataFullLoad (ui world0)) = Fin 100
      \<and> tgtRamRatio (updateTargets dataFullLoad (ui world0)) = Fin 1"
    by (simp add: updateTargets_cpu_ram dataFullLoad_def data0_def fge_def of_long_def ovf_def
        FLT_OVF_def)
  have sc: "smoothClamp (Fin 0) (Fin 100) (Fin 100) (Fin 0) = Fin 15
      \<and> smoothClamp (Fin 0) (Fin 1) (Fin 1) (Fin 0) = Fin 0.15"
    by (simp add: smoothClamp_def Let_def fsub_def fgt_def ovf_def FLT_OVF_def)
  have g: "animates lib e world0 \<and> lastDataMs (drainSerial lib (serialIn e) world0) = 1000
      \<and> curCpu (ui wr) = Fin 15 \<and> curRamRatio (ui wr) = Fin 0.15"
    using loop_line_gauges [OF p _ lineFullLoad_ok, of world0 1000] l
    by (simp add: e_def [symmetric] wr_def [symmetric] docFullLoad_values t sc)
  have d: "dat wr = dataFullLoad"
    using loop_decoded_dat [OF p _ lineFullLoad_ok, of world0 1000] l
    by (simp add: wr_def e_def docFullLoad_values)
  have c: "flt (curLoad (ui wr)) (Fin 0.22)"
    using g by (simp add: curLoad_def ovf_def FLT_OVF_def)
  have ev: "now (tick e) = 1000 \<and> tStale e = 1000"
    by (simp add: e_def envAt_def tickAt_def)
  have s: "\<not> tamaSleeping (ui wr)"
    using loop_low [of lib e world0] g c l ev
    by (simp add: wr_def [symmetric])
  have f: "faceBrows (ui wr) (dat wr) = BrowsSad \<and> faceMouth (ui wr) (dat wr) = MouthFrown"
    using s moodLoad_values by (simp add: d faceBrows_def faceMouth_def fgt_def)
  have sm: "flt (fadd (fmul (Fin 0.5) (fdiv (curCpu (ui wr)) (Fin 100)))
      (fmul (Fin 0.5) (curRamRatio (ui wr)))) (Fin 0.42)"
    using g by (simp add: ovf_def FLT_OVF_def)
  show ?thesis
    using g s f sm unfolding wr_def e_def lib_def by simp
qed

end
